theory Spec2Isabelle
  imports Main "HOL-Library.Word"
begin

unbundle bit_operations_syntax

section \<open>Bytes, strings and errors\<close>

text \<open>
  A Go \<^verbatim>\<open>string\<close> and a Go \<^verbatim>\<open>[]byte\<close> are sequences of bytes. Both are modelled
  as \<^typ>\<open>string\<close>: a \<^typ>\<open>char\<close> of HOL is one byte, read as a number by
  \<^const>\<open>of_char\<close> and written by \<^const>\<open>char_of\<close>.

  A Go \<^verbatim>\<open>error\<close> is a value of \<open>go_error\<close>. \<open>Errorf p e\<close> is
  \<^verbatim>\<open>fmt.Errorf(p + "%w", e)\<close> (or \<^verbatim>\<open>%v\<close>): its message is the prefix \<open>p\<close>
  followed by the message of \<open>e\<close>. \<open>ErrorsNew m\<close> is an error whose whole message is \<open>m\<close>.
  The other constructors are the error values of the standard library that the program
  can meet.
\<close>

datatype go_error =
    ErrorsNew string
  | Errorf string go_error
  | CorruptInputError nat
  | KeySizeError nat
  | SyntaxError
  | UnmarshalTypeError string string
  | TemplateError string
  | TransportError string
  | ReadError string

abbreviation byte_val :: "char \<Rightarrow> nat" where
  "byte_val \<equiv> of_char"

abbreviation byte_of :: "nat \<Rightarrow> char" where
  "byte_of \<equiv> char_of"

text \<open>
  The message of an error, its \<^verbatim>\<open>Error()\<close> string. \<open>Itoa\<close> prints a number in
  decimal. The messages of \<^verbatim>\<open>json.SyntaxError\<close> and \<^verbatim>\<open>json.UnmarshalTypeError\<close>
  name offsets, fields and characters that the model does not keep: for these errors, and
  for an error that wraps one of them, \<open>Error_message\<close> is \<open>None\<close>.
\<close>

fun Itoa :: "nat \<Rightarrow> string" where
  "Itoa n = (if n < 10 then [byte_of (0x30 + n)] else Itoa (n div 10) @ [byte_of (0x30 + n mod 10)])"

declare Itoa.simps [simp del]

fun Error_message :: "go_error \<Rightarrow> string option" where
  "Error_message (ErrorsNew m) = Some m"
| "Error_message (Errorf p e) = map_option (\<lambda>m. p @ m) (Error_message e)"
| "Error_message (CorruptInputError k) = Some (''illegal base64 data at input byte '' @ Itoa k)"
| "Error_message (KeySizeError k) = Some (''crypto/aes: invalid key size '' @ Itoa k)"
| "Error_message SyntaxError = None"
| "Error_message (UnmarshalTypeError v t) = None"
| "Error_message (TemplateError m) = Some m"
| "Error_message (TransportError m) = Some m"
| "Error_message (ReadError m) = Some m"

section \<open>encoding/base64: the URL encoding with padding\<close>

text \<open>
  \<^verbatim>\<open>base64.URLEncoding\<close>: the alphabet of RFC 4648 section 5, padding character
  \<^verbatim>\<open>=\<close>, not strict. \<open>base64_EncodeToString\<close> packs three bytes into four
  characters. \<open>base64_DecodeString\<close> follows the library's \<^verbatim>\<open>decodeQuantum\<close>:
  carriage returns and line feeds are skipped, every other character outside the alphabet
  is an error at its offset, an incomplete last quantum is an error, padding may only end
  the input. \<open>j\<close> counts the characters of the current quantum, \<open>dbuf\<close> holds their
  values, \<open>si\<close> is the offset of the next character and \<open>n\<close> the length of the
  whole input.
\<close>

definition encodeURL :: string where
  "encodeURL = ''ABCDEFGHIJKLMNOPQRSTUVWXYZabcdefghijklmnopqrstuvwxyz0123456789-_''"

definition b64_char :: "nat \<Rightarrow> char" where
  "b64_char i = encodeURL ! (i mod 64)"

fun index_of :: "char \<Rightarrow> string \<Rightarrow> nat \<Rightarrow> nat option" where
  "index_of c [] i = None"
| "index_of c (x # xs) i = (if x = c then Some i else index_of c xs (Suc i))"

definition decodeMap :: "char \<Rightarrow> nat option" where
  "decodeMap c = index_of c encodeURL 0"

fun base64_EncodeToString :: "string \<Rightarrow> string" where
  "base64_EncodeToString [] = []"
| "base64_EncodeToString [a] =
     [b64_char (byte_val a div 4), b64_char (byte_val a mod 4 * 16), CHR ''='', CHR ''='']"
| "base64_EncodeToString [a, b] =
     [b64_char (byte_val a div 4),
      b64_char (byte_val a mod 4 * 16 + byte_val b div 16),
      b64_char (byte_val b mod 16 * 4), CHR ''='']"
| "base64_EncodeToString (a # b # c # rest) =
     [b64_char (byte_val a div 4),
      b64_char (byte_val a mod 4 * 16 + byte_val b div 16),
      b64_char (byte_val b mod 16 * 4 + byte_val c div 64),
      b64_char (byte_val c mod 64)] @ base64_EncodeToString rest"

definition is_newline :: "char \<Rightarrow> bool" where
  "is_newline c = (c = CHR 0x0A \<or> c = CHR 0x0D)"

fun skip_newlines :: "string \<Rightarrow> nat \<Rightarrow> string \<times> nat" where
  "skip_newlines [] si = ([], si)"
| "skip_newlines (c # cs) si =
     (if is_newline c then skip_newlines cs (Suc si) else (c # cs, si))"

text \<open>
  The bytes of a quantum of \<open>dlen\<close> characters: \<open>dlen - 1\<close> bytes of the 24-bit value
  \<open>val\<close>. The encoding is not strict, so the unused low bits are dropped unchecked.
\<close>

definition quantum_bytes :: "nat \<Rightarrow> nat list \<Rightarrow> string" where
  "quantum_bytes dlen dbuf =
     (let d = dbuf @ replicate (4 - length dbuf) 0;
          val = (d ! 0) * 262144 + (d ! 1) * 4096 + (d ! 2) * 64 + (d ! 3)
      in take (dlen - 1)
           [byte_of (val div 65536), byte_of (val div 256 mod 256), byte_of (val mod 256)])"

definition padding_tail :: "nat \<Rightarrow> nat list \<Rightarrow> nat \<Rightarrow> nat \<Rightarrow> string \<Rightarrow> go_error + string" where
  "padding_tail j dbuf si n cs =
     (let after =
        (if j = 2 then
           (case skip_newlines cs si of
              ([], si1) \<Rightarrow> Inl (CorruptInputError n)
            | (c # cs1, si1) \<Rightarrow>
                if c \<noteq> CHR ''='' then Inl (CorruptInputError (si1 - 1))
                else Inr (cs1, Suc si1))
         else Inr (cs, si))
      in case after of
           Inl e \<Rightarrow> Inl e
         | Inr (cs2, si2) \<Rightarrow>
             (case skip_newlines cs2 si2 of
                ([], si3) \<Rightarrow> Inr (quantum_bytes j dbuf)
              | (c # cs3, si3) \<Rightarrow> Inl (CorruptInputError si3)))"

fun decode_from :: "nat \<Rightarrow> nat list \<Rightarrow> nat \<Rightarrow> nat \<Rightarrow> string \<Rightarrow> go_error + string" where
  "decode_from j dbuf si n [] =
     (if j = 0 then Inr [] else Inl (CorruptInputError (si - j)))"
| "decode_from j dbuf si n (c # cs) =
     (case decodeMap c of
        Some d \<Rightarrow>
          if j = 3 then
            (case decode_from 0 [] (Suc si) n cs of
               Inl e \<Rightarrow> Inl e
             | Inr out \<Rightarrow> Inr (quantum_bytes 4 (dbuf @ [d]) @ out))
          else decode_from (Suc j) (dbuf @ [d]) (Suc si) n cs
      | None \<Rightarrow>
          if is_newline c then decode_from j dbuf (Suc si) n cs
          else if c \<noteq> CHR ''='' then Inl (CorruptInputError si)
          else if j < 2 then Inl (CorruptInputError si)
          else padding_tail j dbuf (Suc si) n cs)"

definition base64_DecodeString :: "string \<Rightarrow> go_error + string" where
  "base64_DecodeString s = decode_from 0 [] 0 (length s) s"

section \<open>crypto/sha256\<close>

text \<open>
  SHA-256 as FIPS 180-4 defines it, on 32-bit words. \<open>sha256_Sum256\<close> returns the
  digest as 32 bytes (Go's \<^verbatim>\<open>[32]byte\<close>).
\<close>

definition sha256_K :: "32 word list" where
  "sha256_K = [
      0x428A2F98, 0x71374491, 0xB5C0FBCF, 0xE9B5DBA5, 0x3956C25B, 0x59F111F1,
      0x923F82A4, 0xAB1C5ED5, 0xD807AA98, 0x12835B01, 0x243185BE, 0x550C7DC3,
      0x72BE5D74, 0x80DEB1FE, 0x9BDC06A7, 0xC19BF174, 0xE49B69C1, 0xEFBE4786,
      0x0FC19DC6, 0x240CA1CC, 0x2DE92C6F, 0x4A7484AA, 0x5CB0A9DC, 0x76F988DA,
      0x983E5152, 0xA831C66D, 0xB00327C8, 0xBF597FC7, 0xC6E00BF3, 0xD5A79147,
      0x06CA6351, 0x14292967, 0x27B70A85, 0x2E1B2138, 0x4D2C6DFC, 0x53380D13,
      0x650A7354, 0x766A0ABB, 0x81C2C92E, 0x92722C85, 0xA2BFE8A1, 0xA81A664B,
      0xC24B8B70, 0xC76C51A3, 0xD192E819, 0xD6990624, 0xF40E3585, 0x106AA070,
      0x19A4C116, 0x1E376C08, 0x2748774C, 0x34B0BCB5, 0x391C0CB3, 0x4ED8AA4A,
      0x5B9CCA4F, 0x682E6FF3, 0x748F82EE, 0x78A5636F, 0x84C87814, 0x8CC70208,
      0x90BEFFFA, 0xA4506CEB, 0xBEF9A3F7, 0xC67178F2]"

definition sha256_init :: "32 word list" where
  "sha256_init = [
      0x6A09E667, 0xBB67AE85, 0x3C6EF372, 0xA54FF53A,
      0x510E527F, 0x9B05688C, 0x1F83D9AB, 0x5BE0CD19]"

definition be32 :: "string \<Rightarrow> 32 word" where
  "be32 bs = foldl (\<lambda>acc c. push_bit 8 acc OR of_char c) 0 (take 4 bs)"

definition be32_bytes :: "32 word \<Rightarrow> string" where
  "be32_bytes w = map (\<lambda>i. byte_of (unat (drop_bit (8 * (3 - i)) w AND 0xff))) [0, 1, 2, 3]"

definition be64_bytes :: "64 word \<Rightarrow> string" where
  "be64_bytes w =
     map (\<lambda>i. byte_of (unat (drop_bit (8 * (7 - i)) w AND 0xff))) [0, 1, 2, 3, 4, 5, 6, 7]"

definition sha256_pad :: "string \<Rightarrow> string" where
  "sha256_pad m =
     m @ [CHR 0x80] @ replicate ((119 - length m mod 64) mod 64) (CHR 0x00)
       @ be64_bytes (word_of_nat (8 * length m))"

definition ssig0 :: "32 word \<Rightarrow> 32 word" where
  "ssig0 x = word_rotr 7 x XOR word_rotr 18 x XOR drop_bit 3 x"

definition ssig1 :: "32 word \<Rightarrow> 32 word" where
  "ssig1 x = word_rotr 17 x XOR word_rotr 19 x XOR drop_bit 10 x"

definition bsig0 :: "32 word \<Rightarrow> 32 word" where
  "bsig0 x = word_rotr 2 x XOR word_rotr 13 x XOR word_rotr 22 x"

definition bsig1 :: "32 word \<Rightarrow> 32 word" where
  "bsig1 x = word_rotr 6 x XOR word_rotr 11 x XOR word_rotr 25 x"

fun sha256_words :: "string \<Rightarrow> 32 word list" where
  "sha256_words (a # b # c # d # rest) = be32 [a, b, c, d] # sha256_words rest"
| "sha256_words rest = []"

fun sha256_extend :: "nat \<Rightarrow> 32 word list \<Rightarrow> 32 word list" where
  "sha256_extend 0 w = w"
| "sha256_extend (Suc k) w =
     (let t = length w
      in sha256_extend k
           (w @ [ssig1 (w ! (t - 2)) + w ! (t - 7) + ssig0 (w ! (t - 15)) + w ! (t - 16)]))"

definition sha256_round :: "32 word list \<Rightarrow> 32 word \<times> 32 word \<Rightarrow> 32 word list" where
  "sha256_round s kw =
     (case s of
        [a, b, c, d, e, f, g, h] \<Rightarrow>
          (let t1 = h + bsig1 e + ((e AND f) XOR (NOT e AND g)) + fst kw + snd kw;
               t2 = bsig0 a + ((a AND b) XOR (a AND c) XOR (b AND c))
           in [t1 + t2, a, b, c, d + t1, e, f, g])
      | _ \<Rightarrow> s)"

definition sha256_block :: "32 word list \<Rightarrow> string \<Rightarrow> 32 word list" where
  "sha256_block h blk =
     map2 (+) h (foldl sha256_round h (zip sha256_K (sha256_extend 48 (sha256_words blk))))"

fun sha256_blocks :: "32 word list \<Rightarrow> string \<Rightarrow> 32 word list" where
  "sha256_blocks h m =
     (if length m < 64 then h else sha256_blocks (sha256_block h (take 64 m)) (drop 64 m))"

definition sha256_Sum256 :: "string \<Rightarrow> string" where
  "sha256_Sum256 m = concat (map be32_bytes (sha256_blocks sha256_init (sha256_pad m)))"

section \<open>crypto/aes\<close>

text \<open>
  The AES block cipher of FIPS 197 (encryption only: GCM never deciphers a block), for
  keys of 16, 24 and 32 bytes. A block is 16 bytes in the standard's column order.
  \<open>aes_NewCipher\<close> refuses every other key length, as the library does.
\<close>

definition aes_sbox :: "8 word list" where
  "aes_sbox = [
      0x63, 0x7c, 0x77, 0x7b, 0xf2, 0x6b, 0x6f, 0xc5, 0x30, 0x01, 0x67, 0x2b,
      0xfe, 0xd7, 0xab, 0x76, 0xca, 0x82, 0xc9, 0x7d, 0xfa, 0x59, 0x47, 0xf0,
      0xad, 0xd4, 0xa2, 0xaf, 0x9c, 0xa4, 0x72, 0xc0, 0xb7, 0xfd, 0x93, 0x26,
      0x36, 0x3f, 0xf7, 0xcc, 0x34, 0xa5, 0xe5, 0xf1, 0x71, 0xd8, 0x31, 0x15,
      0x04, 0xc7, 0x23, 0xc3, 0x18, 0x96, 0x05, 0x9a, 0x07, 0x12, 0x80, 0xe2,
      0xeb, 0x27, 0xb2, 0x75, 0x09, 0x83, 0x2c, 0x1a, 0x1b, 0x6e, 0x5a, 0xa0,
      0x52, 0x3b, 0xd6, 0xb3, 0x29, 0xe3, 0x2f, 0x84, 0x53, 0xd1, 0x00, 0xed,
      0x20, 0xfc, 0xb1, 0x5b, 0x6a, 0xcb, 0xbe, 0x39, 0x4a, 0x4c, 0x58, 0xcf,
      0xd0, 0xef, 0xaa, 0xfb, 0x43, 0x4d, 0x33, 0x85, 0x45, 0xf9, 0x02, 0x7f,
      0x50, 0x3c, 0x9f, 0xa8, 0x51, 0xa3, 0x40, 0x8f, 0x92, 0x9d, 0x38, 0xf5,
      0xbc, 0xb6, 0xda, 0x21, 0x10, 0xff, 0xf3, 0xd2, 0xcd, 0x0c, 0x13, 0xec,
      0x5f, 0x97, 0x44, 0x17, 0xc4, 0xa7, 0x7e, 0x3d, 0x64, 0x5d, 0x19, 0x73,
      0x60, 0x81, 0x4f, 0xdc, 0x22, 0x2a, 0x90, 0x88, 0x46, 0xee, 0xb8, 0x14,
      0xde, 0x5e, 0x0b, 0xdb, 0xe0, 0x32, 0x3a, 0x0a, 0x49, 0x06, 0x24, 0x5c,
      0xc2, 0xd3, 0xac, 0x62, 0x91, 0x95, 0xe4, 0x79, 0xe7, 0xc8, 0x37, 0x6d,
      0x8d, 0xd5, 0x4e, 0xa9, 0x6c, 0x56, 0xf4, 0xea, 0x65, 0x7a, 0xae, 0x08,
      0xba, 0x78, 0x25, 0x2e, 0x1c, 0xa6, 0xb4, 0xc6, 0xe8, 0xdd, 0x74, 0x1f,
      0x4b, 0xbd, 0x8b, 0x8a, 0x70, 0x3e, 0xb5, 0x66, 0x48, 0x03, 0xf6, 0x0e,
      0x61, 0x35, 0x57, 0xb9, 0x86, 0xc1, 0x1d, 0x9e, 0xe1, 0xf8, 0x98, 0x11,
      0x69, 0xd9, 0x8e, 0x94, 0x9b, 0x1e, 0x87, 0xe9, 0xce, 0x55, 0x28, 0xdf,
      0x8c, 0xa1, 0x89, 0x0d, 0xbf, 0xe6, 0x42, 0x68, 0x41, 0x99, 0x2d, 0x0f,
      0xb0, 0x54, 0xbb, 0x16]"

definition sub_byte :: "8 word \<Rightarrow> 8 word" where
  "sub_byte x = aes_sbox ! unat x"

definition xtime :: "8 word \<Rightarrow> 8 word" where
  "xtime a = (if bit a 7 then push_bit 1 a XOR 0x1b else push_bit 1 a)"

fun aes_expand :: "nat \<Rightarrow> nat \<Rightarrow> 8 word \<Rightarrow> 8 word list list \<Rightarrow> 8 word list list" where
  "aes_expand 0 nk rcon w = w"
| "aes_expand (Suc k) nk rcon w =
     (let i = length w; prev = w ! (i - 1); back = w ! (i - nk)
      in if i mod nk = 0 then
           (case map sub_byte (rotate1 prev) of
              t0 # ts \<Rightarrow> aes_expand k nk (xtime rcon) (w @ [map2 (XOR) back ((t0 XOR rcon) # ts)])
            | [] \<Rightarrow> w)
         else if 6 < nk \<and> i mod nk = 4 then
           aes_expand k nk rcon (w @ [map2 (XOR) back (map sub_byte prev)])
         else aes_expand k nk rcon (w @ [map2 (XOR) back prev]))"

fun key_words :: "8 word list \<Rightarrow> 8 word list list" where
  "key_words (a # b # c # d # rest) = [a, b, c, d] # key_words rest"
| "key_words rest = []"

definition aes_key_schedule :: "string \<Rightarrow> 8 word list list" where
  "aes_key_schedule key =
     (let nk = length key div 4
      in aes_expand (4 * (nk + 7) - nk) nk 1 (key_words (map of_char key)))"

definition round_key :: "8 word list list \<Rightarrow> nat \<Rightarrow> 8 word list" where
  "round_key w r = concat (take 4 (drop (4 * r) w))"

definition shift_rows :: "8 word list \<Rightarrow> 8 word list" where
  "shift_rows s = map (\<lambda>k. s ! (4 * ((k div 4 + k mod 4) mod 4) + k mod 4)) [0..<16]"

definition mix_column :: "8 word list \<Rightarrow> 8 word list" where
  "mix_column col =
     (case col of
        [a0, a1, a2, a3] \<Rightarrow>
          [xtime a0 XOR (xtime a1 XOR a1) XOR a2 XOR a3,
           a0 XOR xtime a1 XOR (xtime a2 XOR a2) XOR a3,
           a0 XOR a1 XOR xtime a2 XOR (xtime a3 XOR a3),
           (xtime a0 XOR a0) XOR a1 XOR a2 XOR xtime a3]
      | _ \<Rightarrow> col)"

definition mix_columns :: "8 word list \<Rightarrow> 8 word list" where
  "mix_columns s = concat (map mix_column (key_words s))"

fun aes_rounds :: "8 word list list \<Rightarrow> nat \<Rightarrow> nat \<Rightarrow> 8 word list \<Rightarrow> 8 word list" where
  "aes_rounds w nr 0 s = s"
| "aes_rounds w nr (Suc k) s =
     (let r = nr - k;
          s1 = shift_rows (map sub_byte s);
          s2 = (if r = nr then s1 else mix_columns s1)
      in aes_rounds w nr k (map2 (XOR) s2 (round_key w r)))"

definition aes_Encrypt :: "string \<Rightarrow> string \<Rightarrow> string" where
  "aes_Encrypt key blk =
     (let w = aes_key_schedule key; nr = length key div 4 + 6
      in map (\<lambda>x. byte_of (unat x))
           (aes_rounds w nr nr (map2 (XOR) (map of_char blk) (round_key w 0))))"

datatype cipher_Block = AESCipher string

definition aes_NewCipher :: "string \<Rightarrow> go_error + cipher_Block" where
  "aes_NewCipher key =
     (if length key = 16 \<or> length key = 24 \<or> length key = 32 then Inr (AESCipher key)
      else Inl (KeySizeError (length key)))"

fun BlockSize :: "cipher_Block \<Rightarrow> nat" where
  "BlockSize (AESCipher key) = 16"

fun block_Encrypt :: "cipher_Block \<Rightarrow> string \<Rightarrow> string" where
  "block_Encrypt (AESCipher key) blk = aes_Encrypt key blk"

section \<open>crypto/cipher: Galois counter mode\<close>

text \<open>
  GCM of NIST SP 800-38D with the standard 12-byte nonce and the 16-byte tag, as
  \<^verbatim>\<open>cipher.NewGCM\<close> builds it. The counter block is the nonce followed by a 32-bit
  big-endian counter: counter 1 masks the tag, the key stream starts at counter 2.
  \<open>gcm_Seal g dst nonce plaintext aad\<close> appends the ciphertext and the tag to
  \<open>dst\<close>; \<open>gcm_Open\<close> recomputes the tag and returns the one error \<open>errOpen\<close> when the
  input is shorter than a tag or the tags differ. Both are only ever called with a nonce
  of \<open>NonceSize\<close> bytes (the library panics otherwise), and the library's limit on
  the message length (about 64 GiB) is not modelled.
\<close>

datatype cipher_AEAD = GCM cipher_Block

definition cipher_NewGCM :: "cipher_Block \<Rightarrow> go_error + cipher_AEAD" where
  "cipher_NewGCM b =
     (if BlockSize b \<noteq> 16 then Inl (ErrorsNew ''cipher: NewGCM requires 128-bit block cipher'')
      else Inr (GCM b))"

fun NonceSize :: "cipher_AEAD \<Rightarrow> nat" where
  "NonceSize (GCM b) = 12"

definition gcmTagSize :: nat where
  "gcmTagSize = 16"

definition errOpen :: go_error where
  "errOpen = ErrorsNew ''cipher: message authentication failed''"

definition be128 :: "string \<Rightarrow> 128 word" where
  "be128 bs =
     foldl (\<lambda>acc c. push_bit 8 acc OR of_char c) 0 (take 16 (bs @ replicate 16 (CHR 0x00)))"

definition be128_bytes :: "128 word \<Rightarrow> string" where
  "be128_bytes w = map (\<lambda>i. byte_of (unat (drop_bit (8 * (15 - i)) w AND 0xff))) [0..<16]"

definition gf_step :: "128 word \<Rightarrow> nat \<Rightarrow> 128 word \<times> 128 word \<Rightarrow> 128 word \<times> 128 word" where
  "gf_step x i zv =
     (case zv of (z, v) \<Rightarrow>
        (if bit x (127 - i) then z XOR v else z,
         if bit v 0 then drop_bit 1 v XOR push_bit 120 0xE1 else drop_bit 1 v))"

definition gf_mult :: "128 word \<Rightarrow> 128 word \<Rightarrow> 128 word" where
  "gf_mult x y = fst (fold (gf_step x) [0..<128] (0, y))"

fun ghash :: "128 word \<Rightarrow> 128 word \<Rightarrow> string \<Rightarrow> 128 word" where
  "ghash h y m =
     (if m = [] then y else ghash h (gf_mult (y XOR be128 (take 16 m)) h) (drop 16 m))"

definition pad16 :: "string \<Rightarrow> string" where
  "pad16 m = m @ replicate ((16 - length m mod 16) mod 16) (CHR 0x00)"

definition xor_char :: "char \<Rightarrow> char \<Rightarrow> char" where
  "xor_char a b = byte_of (byte_val a XOR byte_val b)"

definition xor_bytes :: "string \<Rightarrow> string \<Rightarrow> string" where
  "xor_bytes xs ks = map2 xor_char xs ks"

definition gcm_counter :: "string \<Rightarrow> nat \<Rightarrow> string" where
  "gcm_counter nonce i = nonce @ be32_bytes (word_of_nat i)"

definition gcm_keystream :: "cipher_Block \<Rightarrow> string \<Rightarrow> nat \<Rightarrow> string" where
  "gcm_keystream b nonce k =
     concat (map (\<lambda>i. block_Encrypt b (gcm_counter nonce (i + 2))) [0..<k])"

definition gcm_crypt :: "cipher_Block \<Rightarrow> string \<Rightarrow> string \<Rightarrow> string" where
  "gcm_crypt b nonce xs = xor_bytes xs (gcm_keystream b nonce ((length xs + 15) div 16))"

definition gcm_tag :: "cipher_Block \<Rightarrow> string \<Rightarrow> string \<Rightarrow> string \<Rightarrow> string" where
  "gcm_tag b nonce aad ct =
     (let h = be128 (block_Encrypt b (replicate 16 (CHR 0x00)));
          lens = be64_bytes (word_of_nat (8 * length aad)) @ be64_bytes (word_of_nat (8 * length ct))
      in xor_bytes (be128_bytes (ghash h 0 (pad16 aad @ pad16 ct @ lens)))
           (block_Encrypt b (gcm_counter nonce 1)))"

fun gcm_Seal :: "cipher_AEAD \<Rightarrow> string \<Rightarrow> string \<Rightarrow> string \<Rightarrow> string \<Rightarrow> string" where
  "gcm_Seal (GCM b) dst nonce plaintext aad =
     (let ct = gcm_crypt b nonce plaintext in dst @ ct @ gcm_tag b nonce aad ct)"

fun gcm_Open :: "cipher_AEAD \<Rightarrow> string \<Rightarrow> string \<Rightarrow> string \<Rightarrow> string \<Rightarrow> go_error + string" where
  "gcm_Open (GCM b) dst nonce ciphertext aad =
     (if length ciphertext < gcmTagSize then Inl errOpen
      else
        (let ct = take (length ciphertext - gcmTagSize) ciphertext;
             tag = drop (length ciphertext - gcmTagSize) ciphertext
         in if gcm_tag b nonce aad ct \<noteq> tag then Inl errOpen
            else Inr (dst @ gcm_crypt b nonce ct)))"

section \<open>unicode/utf8\<close>

text \<open>
  \<open>utf8_DecodeRune\<close> returns the first code point of a byte sequence and its width, and
  \<open>(RuneError, 1)\<close> for a byte that starts no well-formed encoding (overlong forms,
  surrogates and values above U+10FFFF are not well formed). \<open>utf8_EncodeRune\<close> writes a
  code point, and U+FFFD for a surrogate or a value out of range.
\<close>

definition RuneError :: nat where
  "RuneError = 0xFFFD"

definition in_range :: "nat \<Rightarrow> nat \<Rightarrow> char \<Rightarrow> bool" where
  "in_range lo hi c = (lo \<le> byte_val c \<and> byte_val c \<le> hi)"

definition cont :: "char \<Rightarrow> bool" where
  "cont c = in_range 0x80 0xBF c"

text \<open>The bounds of the second byte after the first byte \<open>p0\<close> (the library's accept ranges).\<close>

definition accept_lo :: "nat \<Rightarrow> nat" where
  "accept_lo p0 = (if p0 = 0xE0 then 0xA0 else if p0 = 0xF0 then 0x90 else 0x80)"

definition accept_hi :: "nat \<Rightarrow> nat" where
  "accept_hi p0 = (if p0 = 0xED then 0x9F else if p0 = 0xF4 then 0x8F else 0xBF)"

fun utf8_DecodeRune :: "string \<Rightarrow> nat \<times> nat" where
  "utf8_DecodeRune [] = (RuneError, 0)"
| "utf8_DecodeRune (c0 # rest) =
     (let p0 = byte_val c0
      in if p0 < 0x80 then (p0, 1)
         else if p0 < 0xC2 \<or> 0xF4 < p0 then (RuneError, 1)
         else
           (case rest of
              [] \<Rightarrow> (RuneError, 1)
            | c1 # rest1 \<Rightarrow>
                if \<not> in_range (accept_lo p0) (accept_hi p0) c1 then (RuneError, 1)
                else if p0 < 0xE0 then ((p0 mod 32) * 64 + byte_val c1 mod 64, 2)
                else
                  (case rest1 of
                     [] \<Rightarrow> (RuneError, 1)
                   | c2 # rest2 \<Rightarrow>
                       if \<not> cont c2 then (RuneError, 1)
                       else if p0 < 0xF0 then
                         ((p0 mod 16) * 4096 + (byte_val c1 mod 64) * 64 + byte_val c2 mod 64, 3)
                       else
                         (case rest2 of
                            [] \<Rightarrow> (RuneError, 1)
                          | c3 # rest3 \<Rightarrow>
                              if \<not> cont c3 then (RuneError, 1)
                              else
                                ((p0 mod 8) * 262144 + (byte_val c1 mod 64) * 4096
                                   + (byte_val c2 mod 64) * 64 + byte_val c3 mod 64, 4)))))"

definition utf8_EncodeRune :: "nat \<Rightarrow> string" where
  "utf8_EncodeRune r =
     (if r < 0x80 then [byte_of r]
      else if r < 0x800 then [byte_of (0xC0 + r div 64), byte_of (0x80 + r mod 64)]
      else if 0x10FFFF < r \<or> (0xD800 \<le> r \<and> r < 0xE000) then [CHR 0xEF, CHR 0xBF, CHR 0xBD]
      else if r < 0x10000 then
        [byte_of (0xE0 + r div 4096), byte_of (0x80 + r div 64 mod 64), byte_of (0x80 + r mod 64)]
      else
        [byte_of (0xF0 + r div 262144), byte_of (0x80 + r div 4096 mod 64),
         byte_of (0x80 + r div 64 mod 64), byte_of (0x80 + r mod 64)])"

text \<open>\<open>utf8_Valid s\<close>: \<open>s\<close> is a sequence of well-formed encodings (Go's \<^verbatim>\<open>utf8.Valid\<close>).\<close>

fun utf8_Valid :: "string \<Rightarrow> bool" where
  "utf8_Valid [] = True"
| "utf8_Valid (c # cs) =
     (case utf8_DecodeRune (c # cs) of
        (r, sz) \<Rightarrow> \<not> (r = RuneError \<and> sz = 1) \<and> utf8_Valid (drop (sz - 1) cs))"

section \<open>encoding/json: writing the sealed configuration\<close>

text \<open>
  \<^verbatim>\<open>json.Marshal\<close> of the struct \<^verbatim>\<open>sealedConfig\<close>: an object of the two string
  fields under their tags \<^verbatim>\<open>url\<close> and \<^verbatim>\<open>tmpl\<close>. A string is written by the
  library's \<^verbatim>\<open>appendString\<close> with HTML escaping on: the quote and the backslash are
  escaped, the control characters as \<^verbatim>\<open>\b \f \n \r \t\<close> or \<^verbatim>\<open>\u00XX\<close>,
  the characters \<^verbatim>\<open>< > &\<close> and U+2028, U+2029 as \<^verbatim>\<open>\uXXXX\<close>, and a byte that is
  not part of a well-formed UTF-8 encoding is replaced by the escape of U+FFFD. Marshalling a
  struct of strings never fails.
\<close>

record sealedConfig =
  URL :: string
  Tmpl :: string

definition hex_digit :: "nat \<Rightarrow> char" where
  "hex_digit n = ''0123456789abcdef'' ! (n mod 16)"

definition escape_ascii :: "char \<Rightarrow> string" where
  "escape_ascii c =
     (if c = CHR 0x5C \<or> c = CHR 0x22 then [CHR 0x5C, c]
      else if c = CHR 0x08 then [CHR 0x5C, CHR ''b'']
      else if c = CHR 0x0C then [CHR 0x5C, CHR ''f'']
      else if c = CHR 0x0A then [CHR 0x5C, CHR ''n'']
      else if c = CHR 0x0D then [CHR 0x5C, CHR ''r'']
      else if c = CHR 0x09 then [CHR 0x5C, CHR ''t'']
      else if byte_val c < 0x20 \<or> c = CHR ''<'' \<or> c = CHR ''>'' \<or> c = CHR ''&'' then
        [CHR 0x5C, CHR ''u'', CHR ''0'', CHR ''0'',
         hex_digit (byte_val c div 16), hex_digit (byte_val c mod 16)]
      else [c])"

fun appendString :: "string \<Rightarrow> string" where
  "appendString [] = []"
| "appendString (c # cs) =
     (if byte_val c < 0x80 then escape_ascii c @ appendString cs
      else
        (case utf8_DecodeRune (c # cs) of
           (r, sz) \<Rightarrow>
             if r = RuneError \<and> sz = 1 then
               [CHR 0x5C] @ ''ufffd'' @ appendString cs
             else if r = 0x2028 \<or> r = 0x2029 then
               [CHR 0x5C] @ ''u202'' @ [hex_digit (r mod 16)] @ appendString (drop (sz - 1) cs)
             else take sz (c # cs) @ appendString (drop (sz - 1) cs)))"

definition json_quote :: "string \<Rightarrow> string" where
  "json_quote s = [CHR 0x22] @ appendString s @ [CHR 0x22]"

definition json_Marshal :: "sealedConfig \<Rightarrow> go_error + string" where
  "json_Marshal cfg =
     Inr (''{\"url\":'' @ json_quote (URL cfg) @ '',\"tmpl\":'' @ json_quote (Tmpl cfg) @ ''}'')"

section \<open>encoding/json: reading\<close>

text \<open>
  \<^verbatim>\<open>json.Unmarshal\<close> first checks that the whole input is one JSON value (the
  library's scanner: the grammar of RFC 8259, at most \<open>maxNestingDepth\<close> nested arrays
  and objects, any byte from 0x20 on inside a string), then stores the value into the
  target. \<open>json_parse\<close> is that check and yields the value as a tree; a number keeps its
  literal. The members of an object stay in the order of the text (a later member with
  the same key overrides an earlier one when stored). The recursion runs on fuel; the
  fuel \<open>json_parse\<close> gives is larger than the length of the input, and every recursive
  call comes after at least one consumed character.
\<close>

datatype json =
    JNull
  | JBool bool
  | JNumber string
  | JString string
  | JArray "json list"
  | JObject "(string \<times> json) list"

definition maxNestingDepth :: nat where
  "maxNestingDepth = 10000"

definition is_ws :: "char \<Rightarrow> bool" where
  "is_ws c = (c = CHR '' '' \<or> c = CHR 0x09 \<or> c = CHR 0x0A \<or> c = CHR 0x0D)"

definition skip_ws :: "string \<Rightarrow> string" where
  "skip_ws s = dropWhile is_ws s"

definition is_digit :: "char \<Rightarrow> bool" where
  "is_digit c = in_range 0x30 0x39 c"

definition hex_val :: "char \<Rightarrow> nat option" where
  "hex_val c =
     (if in_range 0x30 0x39 c then Some (byte_val c - 0x30)
      else if in_range 0x61 0x66 c then Some (byte_val c - 0x61 + 10)
      else if in_range 0x41 0x46 c then Some (byte_val c - 0x41 + 10)
      else None)"

fun getu4 :: "string \<Rightarrow> nat option" where
  "getu4 (a # b # c # d # rest) =
     (case (hex_val a, hex_val b, hex_val c, hex_val d) of
        (Some x, Some y, Some z, Some w) \<Rightarrow> Some (x * 4096 + y * 256 + z * 16 + w)
      | _ \<Rightarrow> None)"
| "getu4 rest = None"

text \<open>The second half of a surrogate pair: the code unit of an escape \<^verbatim>\<open>\uXXXX\<close> that follows.\<close>

fun next_escape :: "string \<Rightarrow> nat option" where
  "next_escape (b # u # rest) = (if b = CHR 0x5C \<and> u = CHR ''u'' then getu4 rest else None)"
| "next_escape rest = None"

definition unescape :: "char \<Rightarrow> char option" where
  "unescape e =
     (if e = CHR 0x22 \<or> e = CHR 0x5C \<or> e = CHR ''/'' then Some e
      else if e = CHR ''b'' then Some (CHR 0x08)
      else if e = CHR ''f'' then Some (CHR 0x0C)
      else if e = CHR ''n'' then Some (CHR 0x0A)
      else if e = CHR ''r'' then Some (CHR 0x0D)
      else if e = CHR ''t'' then Some (CHR 0x09)
      else None)"

definition prepend :: "string \<Rightarrow> go_error + string \<times> string \<Rightarrow> go_error + string \<times> string" where
  "prepend xs res = (case res of Inl e \<Rightarrow> Inl e | Inr (str, rest) \<Rightarrow> Inr (xs @ str, rest))"

text \<open>
  \<open>scan_string\<close> reads a string literal after its opening quote and returns the string it
  denotes and the text after the closing quote (the library's \<^verbatim>\<open>unquote\<close>): escapes are
  resolved, a surrogate pair of two escapes is one code point, a lone surrogate and every
  byte that is not well-formed UTF-8 become U+FFFD.
\<close>

fun scan_string :: "string \<Rightarrow> go_error + string \<times> string" where
  "scan_string [] = Inl SyntaxError"
| "scan_string (c # cs) =
     (if c = CHR 0x22 then Inr ([], cs)
      else if c = CHR 0x5C then
        (case cs of
           [] \<Rightarrow> Inl SyntaxError
         | e # cs1 \<Rightarrow>
             if e = CHR ''u'' then
               (case getu4 cs1 of
                  None \<Rightarrow> Inl SyntaxError
                | Some rr \<Rightarrow>
                    if 0xD800 \<le> rr \<and> rr < 0xE000 then
                      (case next_escape (drop 4 cs1) of
                         None \<Rightarrow> prepend (utf8_EncodeRune RuneError) (scan_string (drop 4 cs1))
                       | Some rr1 \<Rightarrow>
                           if rr < 0xDC00 \<and> 0xDC00 \<le> rr1 \<and> rr1 < 0xE000 then
                             prepend
                               (utf8_EncodeRune ((rr - 0xD800) * 1024 + (rr1 - 0xDC00) + 0x10000))
                               (scan_string (drop 10 cs1))
                           else prepend (utf8_EncodeRune RuneError) (scan_string (drop 4 cs1)))
                    else prepend (utf8_EncodeRune rr) (scan_string (drop 4 cs1)))
             else
               (case unescape e of
                  None \<Rightarrow> Inl SyntaxError
                | Some b \<Rightarrow> prepend [b] (scan_string cs1)))
      else if byte_val c < 0x20 then Inl SyntaxError
      else if byte_val c < 0x80 then prepend [c] (scan_string cs)
      else
        (case utf8_DecodeRune (c # cs) of
           (r, sz) \<Rightarrow> prepend (utf8_EncodeRune r) (scan_string (drop (sz - 1) cs))))"

definition scan_int :: "string \<Rightarrow> (string \<times> string) option" where
  "scan_int s =
     (case s of
        [] \<Rightarrow> None
      | c # cs \<Rightarrow>
          if c = CHR ''0'' then Some ([c], cs)
          else if is_digit c then Some (c # takeWhile is_digit cs, dropWhile is_digit cs)
          else None)"

definition scan_digits1 :: "string \<Rightarrow> (string \<times> string) option" where
  "scan_digits1 s =
     (if takeWhile is_digit s = [] then None else Some (takeWhile is_digit s, dropWhile is_digit s))"

definition scan_frac :: "string \<Rightarrow> (string \<times> string) option" where
  "scan_frac s =
     (case s of
        [] \<Rightarrow> Some ([], s)
      | c # cs \<Rightarrow>
          if c = CHR ''.'' then
            (case scan_digits1 cs of None \<Rightarrow> None | Some (ds, rest) \<Rightarrow> Some (c # ds, rest))
          else Some ([], s))"

definition scan_exp :: "string \<Rightarrow> (string \<times> string) option" where
  "scan_exp s =
     (case s of
        [] \<Rightarrow> Some ([], s)
      | c # cs \<Rightarrow>
          if c = CHR ''e'' \<or> c = CHR ''E'' then
            (case cs of
               [] \<Rightarrow> None
             | g # cs1 \<Rightarrow>
                 if g = CHR ''+'' \<or> g = CHR ''-'' then
                   (case scan_digits1 cs1 of
                      None \<Rightarrow> None
                    | Some (ds, rest) \<Rightarrow> Some (c # g # ds, rest))
                 else
                   (case scan_digits1 cs of
                      None \<Rightarrow> None
                    | Some (ds, rest) \<Rightarrow> Some (c # ds, rest)))
          else Some ([], s))"

definition scan_number :: "string \<Rightarrow> go_error + string \<times> string" where
  "scan_number s =
     (let sgn = (if take 1 s = ''-'' then ''-'' else []);
          s1 = (if take 1 s = ''-'' then drop 1 s else s)
      in case scan_int s1 of
           None \<Rightarrow> Inl SyntaxError
         | Some (ip, s2) \<Rightarrow>
             (case scan_frac s2 of
                None \<Rightarrow> Inl SyntaxError
              | Some (fp, s3) \<Rightarrow>
                  (case scan_exp s3 of
                     None \<Rightarrow> Inl SyntaxError
                   | Some (ep, s4) \<Rightarrow> Inr (sgn @ ip @ fp @ ep, s4))))"

definition scan_literal :: "string \<Rightarrow> json \<Rightarrow> string \<Rightarrow> go_error + json \<times> string" where
  "scan_literal lit v s =
     (if take (length lit) s = lit then Inr (v, drop (length lit) s) else Inl SyntaxError)"

definition out_of_fuel :: go_error where
  "out_of_fuel = ErrorsNew ''out of fuel''"

fun parse_value :: "nat \<Rightarrow> nat \<Rightarrow> string \<Rightarrow> go_error + json \<times> string"
  and parse_elements :: "nat \<Rightarrow> nat \<Rightarrow> json list \<Rightarrow> string \<Rightarrow> go_error + json \<times> string"
  and parse_members ::
    "nat \<Rightarrow> nat \<Rightarrow> (string \<times> json) list \<Rightarrow> string \<Rightarrow> go_error + json \<times> string"
where
  "parse_value 0 d s = Inl out_of_fuel"
| "parse_value (Suc f) d s =
     (case skip_ws s of
        [] \<Rightarrow> Inl SyntaxError
      | c # cs \<Rightarrow>
          if c = CHR ''{'' then
            (if maxNestingDepth \<le> d then Inl SyntaxError
             else
               (case skip_ws cs of
                  [] \<Rightarrow> Inl SyntaxError
                | c1 # cs1 \<Rightarrow>
                    if c1 = CHR ''}'' then Inr (JObject [], cs1)
                    else parse_members f (Suc d) [] (c1 # cs1)))
          else if c = CHR ''['' then
            (if maxNestingDepth \<le> d then Inl SyntaxError
             else
               (case skip_ws cs of
                  [] \<Rightarrow> Inl SyntaxError
                | c1 # cs1 \<Rightarrow>
                    if c1 = CHR '']'' then Inr (JArray [], cs1)
                    else parse_elements f (Suc d) [] (c1 # cs1)))
          else if c = CHR 0x22 then
            (case scan_string cs of
               Inl e \<Rightarrow> Inl e
             | Inr (str, rest) \<Rightarrow> Inr (JString str, rest))
          else if c = CHR ''-'' \<or> is_digit c then
            (case scan_number (c # cs) of
               Inl e \<Rightarrow> Inl e
             | Inr (lit, rest) \<Rightarrow> Inr (JNumber lit, rest))
          else if c = CHR ''t'' then scan_literal ''true'' (JBool True) (c # cs)
          else if c = CHR ''f'' then scan_literal ''false'' (JBool False) (c # cs)
          else if c = CHR ''n'' then scan_literal ''null'' JNull (c # cs)
          else Inl SyntaxError)"
| "parse_elements 0 d acc s = Inl out_of_fuel"
| "parse_elements (Suc f) d acc s =
     (case parse_value f d s of
        Inl e \<Rightarrow> Inl e
      | Inr (v, rest) \<Rightarrow>
          (case skip_ws rest of
             [] \<Rightarrow> Inl SyntaxError
           | c # cs \<Rightarrow>
               if c = CHR '','' then parse_elements f d (acc @ [v]) cs
               else if c = CHR '']'' then Inr (JArray (acc @ [v]), cs)
               else Inl SyntaxError))"
| "parse_members 0 d acc s = Inl out_of_fuel"
| "parse_members (Suc f) d acc s =
     (case skip_ws s of
        [] \<Rightarrow> Inl SyntaxError
      | c # cs \<Rightarrow>
          if c \<noteq> CHR 0x22 then Inl SyntaxError
          else
            (case scan_string cs of
               Inl e \<Rightarrow> Inl e
             | Inr (k, rest) \<Rightarrow>
                 (case skip_ws rest of
                    [] \<Rightarrow> Inl SyntaxError
                  | c1 # rest1 \<Rightarrow>
                      if c1 \<noteq> CHR '':'' then Inl SyntaxError
                      else
                        (case parse_value f d rest1 of
                           Inl e \<Rightarrow> Inl e
                         | Inr (v, rest2) \<Rightarrow>
                             (case skip_ws rest2 of
                                [] \<Rightarrow> Inl SyntaxError
                              | c2 # rest3 \<Rightarrow>
                                  if c2 = CHR '','' then parse_members f d (acc @ [(k, v)]) rest3
                                  else if c2 = CHR ''}'' then Inr (JObject (acc @ [(k, v)]), rest3)
                                  else Inl SyntaxError)))))"

definition json_parse :: "string \<Rightarrow> go_error + json" where
  "json_parse s =
     (case parse_value (Suc (length s)) 0 s of
        Inl e \<Rightarrow> Inl e
      | Inr (v, rest) \<Rightarrow> if skip_ws rest = [] then Inr v else Inl SyntaxError)"

text \<open>The kind of a value, as \<^verbatim>\<open>UnmarshalTypeError\<close> names it.\<close>

fun kind_name :: "json \<Rightarrow> string" where
  "kind_name JNull = ''null''"
| "kind_name (JBool b) = ''bool''"
| "kind_name (JNumber lit) = ''number''"
| "kind_name (JString str) = ''string''"
| "kind_name (JArray vs) = ''array''"
| "kind_name (JObject kvs) = ''object''"

subsection \<open>Into the struct of the sealed configuration\<close>

text \<open>
  An object is stored into \<^verbatim>\<open>sealedConfig\<close> member by member: a key selects a field
  when it equals the field's tag up to the case of ASCII letters (the library also folds
  the Kelvin sign and the long s, letters that neither tag has); a string sets the field,
  \<^verbatim>\<open>null\<close> leaves it, any other value is an \<^verbatim>\<open>UnmarshalTypeError\<close>; members
  under other keys are skipped. \<^verbatim>\<open>null\<close> at the top stores nothing, every other value
  that is not an object is an error. The first error is the one returned.
\<close>

definition ascii_upper :: "char \<Rightarrow> char" where
  "ascii_upper c = (if in_range 0x61 0x7A c then byte_of (byte_val c - 32) else c)"

definition fold_eq :: "string \<Rightarrow> string \<Rightarrow> bool" where
  "fold_eq k name = (map ascii_upper k = map ascii_upper name)"

definition save_error :: "go_error option \<Rightarrow> go_error \<Rightarrow> go_error option" where
  "save_error saved e = (case saved of None \<Rightarrow> Some e | Some e0 \<Rightarrow> Some e0)"

fun decode_fields ::
  "(string \<times> json) list \<Rightarrow> sealedConfig \<Rightarrow> go_error option \<Rightarrow> sealedConfig \<times> go_error option"
where
  "decode_fields [] cfg saved = (cfg, saved)"
| "decode_fields ((k, v) # kvs) cfg saved =
     (if fold_eq k ''url'' then
        (case v of
           JString str \<Rightarrow> decode_fields kvs (cfg\<lparr>URL := str\<rparr>) saved
         | JNull \<Rightarrow> decode_fields kvs cfg saved
         | _ \<Rightarrow> decode_fields kvs cfg (save_error saved (UnmarshalTypeError (kind_name v) ''string'')))
      else if fold_eq k ''tmpl'' then
        (case v of
           JString str \<Rightarrow> decode_fields kvs (cfg\<lparr>Tmpl := str\<rparr>) saved
         | JNull \<Rightarrow> decode_fields kvs cfg saved
         | _ \<Rightarrow> decode_fields kvs cfg (save_error saved (UnmarshalTypeError (kind_name v) ''string'')))
      else decode_fields kvs cfg saved)"

definition json_Unmarshal_sealedConfig :: "string \<Rightarrow> go_error + sealedConfig" where
  "json_Unmarshal_sealedConfig data =
     (case json_parse data of
        Inl e \<Rightarrow> Inl e
      | Inr v \<Rightarrow>
          (case v of
             JObject kvs \<Rightarrow>
               (case decode_fields kvs \<lparr>URL = [], Tmpl = []\<rparr> None of
                  (cfg, None) \<Rightarrow> Inr cfg
                | (cfg, Some e) \<Rightarrow> Inl e)
           | JNull \<Rightarrow> Inr \<lparr>URL = [], Tmpl = []\<rparr>
           | _ \<Rightarrow> Inl (UnmarshalTypeError (kind_name v) ''config.sealedConfig'')))"

subsection \<open>Into a map from strings to any value\<close>

text \<open>
  The target \<^verbatim>\<open>map[string]any\<close> takes an object, and \<^verbatim>\<open>null\<close> (the map stays
  \<^verbatim>\<open>nil\<close>); every other value is an \<^verbatim>\<open>UnmarshalTypeError\<close>. Inside the object a
  number becomes a \<^verbatim>\<open>float64\<close>: a literal that rounds to infinity, that is one of
  magnitude at least \<open>2^1024 - 2^970\<close>, is an \<^verbatim>\<open>UnmarshalTypeError\<close> as well.
  The data handed to the template is \<open>None\<close> for the \<^verbatim>\<open>nil\<close> map and otherwise the
  members of the object.
\<close>

type_synonym tmpl_data = "(string \<times> json) list option"

definition digits_val :: "string \<Rightarrow> nat" where
  "digits_val ds = foldl (\<lambda>acc c. acc * 10 + (byte_val c - 0x30)) 0 ds"

definition float64_limit :: nat where
  "float64_limit = 2 ^ 1024 - 2 ^ 970"

definition float64_overflows :: "string \<Rightarrow> bool" where
  "float64_overflows lit =
     (let s0 = (if take 1 lit = ''-'' then drop 1 lit else lit);
          ip = takeWhile is_digit s0;
          r1 = dropWhile is_digit s0;
          fp = (if take 1 r1 = ''.'' then takeWhile is_digit (drop 1 r1) else []);
          r2 = (if take 1 r1 = ''.'' then dropWhile is_digit (drop 1 r1) else r1);
          neg = (take 1 (drop 1 r2) = ''-'');
          ed = (if take 1 (drop 1 r2) = ''-'' \<or> take 1 (drop 1 r2) = ''+'' then drop 2 r2
                else drop 1 r2);
          m = digits_val (ip @ fp);
          e10 = (if neg then - int (digits_val ed) else int (digits_val ed)) - int (length fp)
      in if 0 \<le> e10 then float64_limit \<le> m * 10 ^ nat e10
         else float64_limit * 10 ^ nat (- e10) \<le> m)"

fun number_errors :: "json \<Rightarrow> go_error list"
  and number_errors_list :: "json list \<Rightarrow> go_error list"
  and number_errors_members :: "(string \<times> json) list \<Rightarrow> go_error list"
where
  "number_errors JNull = []"
| "number_errors (JBool b) = []"
| "number_errors (JNumber lit) =
     (if float64_overflows lit then [UnmarshalTypeError (''number '' @ lit) ''float64''] else [])"
| "number_errors (JString str) = []"
| "number_errors (JArray vs) = number_errors_list vs"
| "number_errors (JObject kvs) = number_errors_members kvs"
| "number_errors_list [] = []"
| "number_errors_list (v # vs) = number_errors v @ number_errors_list vs"
| "number_errors_members [] = []"
| "number_errors_members (kv # kvs) = number_errors (snd kv) @ number_errors_members kvs"

definition json_Unmarshal_map :: "string \<Rightarrow> go_error + tmpl_data" where
  "json_Unmarshal_map data =
     (case json_parse data of
        Inl e \<Rightarrow> Inl e
      | Inr v \<Rightarrow>
          (case v of
             JObject kvs \<Rightarrow>
               (case number_errors_members kvs of
                  [] \<Rightarrow> Inr (Some kvs)
                | e # es \<Rightarrow> Inl e)
           | JNull \<Rightarrow> Inr None
           | _ \<Rightarrow> Inl (UnmarshalTypeError (kind_name v) ''map[string]interface {}'')))"

section \<open>pkg/config: the sealer\<close>

text \<open>
  \<^verbatim>\<open>crypto/rand\<close> is the one input of the sealer that is not an argument. It is modelled
  by the bytes the source will still deliver: reading \<open>n\<close> bytes takes the first \<open>n\<close>
  of them, and fails when fewer are left (the source fills the whole buffer or returns an
  error).
\<close>

definition rand_Read :: "nat \<Rightarrow> string \<Rightarrow> (go_error + string) \<times> string" where
  "rand_Read n src =
     (if length src < n then (Inl (ErrorsNew ''crypto/rand: source failed''), src)
      else (Inr (take n src), drop n src))"

record Sealer =
  Secret :: string

text \<open>
  \<open>Seal s urlStr tmplStr rnd\<close> returns the token or the error, and what is left of the
  randomness. In the source:
  \<^verbatim>\<open>key := sha256.Sum256(secret); block, err := aes.NewCipher(key[:]); gcm, err := cipher.NewGCM(block);
  plaintext, err := json.Marshal(sealedConfig{..}); nonce := make([]byte, gcm.NonceSize());
  rand.Read(nonce); ciphertext := gcm.Seal(nonce, nonce, plaintext, nil);
  return base64.URLEncoding.EncodeToString(ciphertext)\<close>.
\<close>

definition Seal :: "Sealer \<Rightarrow> string \<Rightarrow> string \<Rightarrow> string \<Rightarrow> (go_error + string) \<times> string" where
  "Seal s urlStr tmplStr rnd =
     (case aes_NewCipher (sha256_Sum256 (Secret s)) of
        Inl err \<Rightarrow> (Inl (Errorf ''create cipher: '' err), rnd)
      | Inr block \<Rightarrow>
          (case cipher_NewGCM block of
             Inl err \<Rightarrow> (Inl (Errorf ''create GCM: '' err), rnd)
           | Inr gcm \<Rightarrow>
               (case json_Marshal \<lparr>URL = urlStr, Tmpl = tmplStr\<rparr> of
                  Inl err \<Rightarrow> (Inl (Errorf ''marshal config: '' err), rnd)
                | Inr plaintext \<Rightarrow>
                    (case rand_Read (NonceSize gcm) rnd of
                       (Inl err, rnd1) \<Rightarrow> (Inl (Errorf ''generate nonce: '' err), rnd1)
                     | (Inr nonce, rnd1) \<Rightarrow>
                         (Inr (base64_EncodeToString (gcm_Seal gcm nonce nonce plaintext [])),
                          rnd1)))))"

text \<open>
  \<open>Unseal s token\<close> returns the pair \<open>(urlStr, tmplStr)\<close> or the error (the source
  returns two empty strings beside every error).
\<close>

definition Unseal :: "Sealer \<Rightarrow> string \<Rightarrow> go_error + string \<times> string" where
  "Unseal s token =
     (case base64_DecodeString token of
        Inl err \<Rightarrow> Inl (Errorf ''decode token: '' err)
      | Inr data \<Rightarrow>
          (case aes_NewCipher (sha256_Sum256 (Secret s)) of
             Inl err \<Rightarrow> Inl (Errorf ''create cipher: '' err)
           | Inr block \<Rightarrow>
               (case cipher_NewGCM block of
                  Inl err \<Rightarrow> Inl (Errorf ''create GCM: '' err)
                | Inr gcm \<Rightarrow>
                    (let nonceSize = NonceSize gcm
                     in if length data < nonceSize then Inl (ErrorsNew ''token too short'')
                        else
                          (let nonce = take nonceSize data; ciphertext = drop nonceSize data
                           in case gcm_Open gcm [] nonce ciphertext [] of
                                Inl err \<Rightarrow> Inl (Errorf ''decrypt token: '' err)
                              | Inr plaintext \<Rightarrow>
                                  (case json_Unmarshal_sealedConfig plaintext of
                                     Inl err \<Rightarrow> Inl (Errorf ''unmarshal config: '' err)
                                   | Inr cfg \<Rightarrow> Inr (URL cfg, Tmpl cfg)))))))"

section \<open>text/template and net/http\<close>

text \<open>
  The template engine and the HTTP client are outside the repository. A compiled template
  is represented by the text it was parsed from. A text without the left delimiter
  \<^verbatim>\<open>{{\<close> holds no action: it always parses, and executing it writes the text itself,
  whatever the data. What the engine does with a text that holds actions is a parameter
  of the model (\<open>tmpl_parse_error\<close>: the error of \<^verbatim>\<open>Parse\<close>, if any;
  \<open>tmpl_exec\<close>: the output or error of \<^verbatim>\<open>Execute\<close>), and so is
  \<^verbatim>\<open>http.NewRequestWithContext\<close>, which refuses some methods and URLs
  (\<open>new_request_error\<close>).
\<close>

datatype template = Template string

record library =
  tmpl_parse_error :: "string \<Rightarrow> go_error option"
  tmpl_exec :: "string \<Rightarrow> tmpl_data \<Rightarrow> go_error + string"
  new_request_error :: "string \<Rightarrow> string \<Rightarrow> go_error option"

fun has_action :: "string \<Rightarrow> bool" where
  "has_action (a # b # rest) = ((a = CHR ''{'' \<and> b = CHR ''{'') \<or> has_action (b # rest))"
| "has_action rest = False"

definition template_Parse :: "library \<Rightarrow> string \<Rightarrow> go_error + template" where
  "template_Parse lib tstr =
     (if has_action tstr then
        (case tmpl_parse_error lib tstr of Some err \<Rightarrow> Inl err | None \<Rightarrow> Inr (Template tstr))
      else Inr (Template tstr))"

fun template_Execute :: "library \<Rightarrow> template \<Rightarrow> tmpl_data \<Rightarrow> go_error + string" where
  "template_Execute lib (Template tstr) data =
     (if has_action tstr then tmpl_exec lib tstr data else Inr tstr)"

record http_request =
  req_method :: string
  req_token :: string
  req_body :: "go_error + string"

record out_request =
  out_method :: string
  out_url :: string
  out_body :: string

record http_response =
  resp_status :: nat
  resp_body :: string

section \<open>pkg/rest: the server\<close>

text \<open>
  What a handler writes to the caller is a status and a payload: \<open>ErrorJSON err\<close> is the
  envelope \<^verbatim>\<open>{"error": %q}\<close> formatted with the message of \<open>err\<close>, and
  \<open>Copied b\<close> the body of the target's response. Of the server's fields the model keeps
  the sealer, the client (the answer of the network to an outbound request) and the cache
  of parsed templates. \<open>req_body\<close> of an inbound request is the result of reading
  it whole.
\<close>

datatype payload = ErrorJSON go_error | Copied string

record reply =
  reply_status :: nat
  reply_payload :: payload

record Server =
  sealer :: Sealer
  client_Do :: "out_request \<Rightarrow> go_error + http_response"
  templates :: "string \<rightharpoonup> template"

definition StatusBadRequest :: nat where
  "StatusBadRequest = 400"

definition StatusInternalServerError :: nat where
  "StatusInternalServerError = 500"

definition Server_error :: "nat \<Rightarrow> go_error \<Rightarrow> reply" where
  "Server_error status err = \<lparr>reply_status = status, reply_payload = ErrorJSON err\<rparr>"

definition hex_string :: "string \<Rightarrow> string" where
  "hex_string bs =
     concat (map (\<lambda>c. [hex_digit (byte_val c div 16), hex_digit (byte_val c mod 16)]) bs)"

text \<open>
  The cache key of \<^verbatim>\<open>Server.template\<close>: both strings are written to one SHA-256 hash,
  one after the other, and the digest is printed in hexadecimal.
\<close>

definition template_key :: "string \<Rightarrow> string \<Rightarrow> string" where
  "template_key url tstr = hex_string (sha256_Sum256 (url @ tstr))"

definition Server_template ::
  "library \<Rightarrow> Server \<Rightarrow> string \<Rightarrow> string \<Rightarrow> (go_error + template) \<times> Server"
where
  "Server_template lib s url tstr =
     (let key = template_key url tstr
      in case templates s key of
           Some tmpl \<Rightarrow> (Inr tmpl, s)
         | None \<Rightarrow>
             (case template_Parse lib tstr of
                Inl err \<Rightarrow> (Inl (Errorf ''parse template: '' err), s)
              | Inr tmpl \<Rightarrow> (Inr tmpl, s\<lparr>templates := (templates s)(key \<mapsto> tmpl)\<rparr>)))"

text \<open>
  \<open>handleWebhook lib s r\<close> returns the reply to the caller, the outbound requests handed
  to the client, and the server with its cache updated.
\<close>

definition handleWebhook ::
  "library \<Rightarrow> Server \<Rightarrow> http_request \<Rightarrow> reply \<times> out_request list \<times> Server"
where
  "handleWebhook lib s r =
     (case Unseal (sealer s) (req_token r) of
        Inl err \<Rightarrow> (Server_error StatusBadRequest (Errorf ''invalid token: '' err), [], s)
      | Inr (remoteURL, rawTmpl) \<Rightarrow>
     (case req_body r of
        Inl err \<Rightarrow>
          (Server_error StatusBadRequest (Errorf ''failed to read request body: '' err), [], s)
      | Inr body \<Rightarrow>
     (case (if 0 < length body then json_Unmarshal_map body else Inr None) of
        Inl err \<Rightarrow> (Server_error StatusBadRequest (Errorf ''invalid JSON: '' err), [], s)
      | Inr data \<Rightarrow>
     (case Server_template lib s remoteURL rawTmpl of
        (Inl err, s1) \<Rightarrow>
          (Server_error StatusBadRequest (Errorf ''invalid template: '' err), [], s1)
      | (Inr tmpl, s1) \<Rightarrow>
     (case template_Execute lib tmpl data of
        Inl err \<Rightarrow>
          (Server_error StatusInternalServerError (Errorf ''failed to execute template: '' err),
           [], s1)
      | Inr buf \<Rightarrow>
     (case new_request_error lib (req_method r) remoteURL of
        Some err \<Rightarrow>
          (Server_error StatusInternalServerError (Errorf ''failed to create request: '' err),
           [], s1)
      | None \<Rightarrow>
          (let req = \<lparr>out_method = req_method r, out_url = remoteURL, out_body = buf\<rparr>
           in case client_Do s req of
                Inl err \<Rightarrow>
                  (Server_error StatusInternalServerError
                     (Errorf ''failed to send request: '' err), [req], s1)
              | Inr resp \<Rightarrow>
                  (\<lparr>reply_status = resp_status resp, reply_payload = Copied (resp_body resp)\<rparr>,
                   [req], s1))))))))"

section \<open>The values of the tests\<close>

text \<open>
  The tests of the handler (\<^verbatim>\<open>server_test.go\<close>) run a server with the secret
  \<^verbatim>\<open>test-secret\<close> and an empty cache against a target that answers, or against one
  whose connection is refused. \<open>test_token u t\<close> is the token \<open>Seal\<close> returns for
  \<open>u\<close> and \<open>t\<close> under that secret when the random source delivers the twelve bytes
  \<^verbatim>\<open>abcdefghijkl\<close>. \<open>test_library\<close> is one instance of what the model leaves open
  about the libraries: an engine that refuses the text \<^verbatim>\<open>{{\<close> (an unclosed action),
  fails on \<^verbatim>\<open>{{.a.b}}\<close> when the data is \<^verbatim>\<open>nil\<close> and renders every other text with
  actions as the empty text, and a request constructor that refuses the URL
  \<^verbatim>\<open>://bad\<close>. The examples below use it where a concrete engine is needed.
\<close>

definition test_library :: library where
  "test_library =
     \<lparr>tmpl_parse_error =
        (\<lambda>tstr. if tstr = ''{{'' then Some (TemplateError ''template: :1: unclosed action'')
                else None),
      tmpl_exec =
        (\<lambda>tstr data.
           if tstr = ''{{.a.b}}'' \<and> data = None then
             Inl (TemplateError ''nil pointer evaluating interface {}.b'')
           else Inr []),
      new_request_error =
        (\<lambda>m u. if u = ''://bad'' then Some (ErrorsNew ''missing protocol scheme'') else None)\<rparr>"

definition test_server :: "(out_request \<Rightarrow> go_error + http_response) \<Rightarrow> Server" where
  "test_server client =
     \<lparr>sealer = \<lparr>Secret = ''test-secret''\<rparr>, client_Do = client, templates = Map.empty\<rparr>"

definition remote_ok :: "out_request \<Rightarrow> go_error + http_response" where
  "remote_ok req = Inr \<lparr>resp_status = 200, resp_body = []\<rparr>"

definition remote_closed :: "out_request \<Rightarrow> go_error + http_response" where
  "remote_closed req = Inl (TransportError ''connection refused'')"

definition test_token :: "string \<Rightarrow> string \<Rightarrow> string" where
  "test_token u t =
     (case fst (Seal \<lparr>Secret = ''test-secret''\<rparr> u t ''abcdefghijkl'') of
        Inr token \<Rightarrow> token
      | Inl err \<Rightarrow> [])"

section \<open>Facts about the library model\<close>

subsection \<open>The derived key has 32 bytes, so the cipher is always created\<close>

lemma length_sha256_round: "length s = 8 \<Longrightarrow> length (sha256_round s kw) = 8"
  by (auto simp: sha256_round_def Let_def split: list.splits)

lemma length_foldl_sha256_round: "length s = 8 \<Longrightarrow> length (foldl sha256_round s kws) = 8"
  by (induction kws arbitrary: s) (simp_all add: length_sha256_round)

lemma length_sha256_block: "length h = 8 \<Longrightarrow> length (sha256_block h blk) = 8"
  by (simp add: sha256_block_def length_foldl_sha256_round)

lemma length_sha256_blocks: "length h = 8 \<Longrightarrow> length (sha256_blocks h m) = 8"
proof (induction h m rule: sha256_blocks.induct)
  case (1 h m)
  show ?case
  proof (cases "length m < 64")
    case True
    then show ?thesis using "1.prems" by (subst sha256_blocks.simps) simp
  next
    case False
    then show ?thesis
      using "1.IH" "1.prems" by (subst sha256_blocks.simps) (simp add: length_sha256_block)
  qed
qed

lemma length_concat_const: "(\<And>x. x \<in> set xs \<Longrightarrow> length (f x) = k) \<Longrightarrow> length (concat (map f xs)) = k * length xs"
  by (induction xs) simp_all

lemma length_be32_bytes: "length (be32_bytes w) = 4"
  by (simp add: be32_bytes_def)

lemma length_sha256_Sum256: "length (sha256_Sum256 m) = 32"
proof -
  have "length (sha256_blocks sha256_init (sha256_pad m)) = 8"
    by (rule length_sha256_blocks) (simp add: sha256_init_def)
  then show ?thesis
    unfolding sha256_Sum256_def
    by (subst length_concat_const [where k = 4]) (simp_all add: length_be32_bytes)
qed

lemma NewCipher_sha256: "aes_NewCipher (sha256_Sum256 m) = Inr (AESCipher (sha256_Sum256 m))"
  by (simp add: aes_NewCipher_def length_sha256_Sum256)

lemma NewGCM_AES: "cipher_NewGCM (AESCipher k) = Inr (GCM (AESCipher k))"
  by (simp add: cipher_NewGCM_def)

lemma Unseal_unfold:
  "Unseal s token =
     (case base64_DecodeString token of
        Inl err \<Rightarrow> Inl (Errorf ''decode token: '' err)
      | Inr data \<Rightarrow>
          if length data < 12 then Inl (ErrorsNew ''token too short'')
          else
            (case gcm_Open (GCM (AESCipher (sha256_Sum256 (Secret s)))) [] (take 12 data) (drop 12 data) [] of
               Inl err \<Rightarrow> Inl (Errorf ''decrypt token: '' err)
             | Inr plaintext \<Rightarrow>
                 (case json_Unmarshal_sealedConfig plaintext of
                    Inl err \<Rightarrow> Inl (Errorf ''unmarshal config: '' err)
                  | Inr cfg \<Rightarrow> Inr (URL cfg, Tmpl cfg))))"
  by (simp add: Unseal_def NewCipher_sha256 NewGCM_AES Let_def split: sum.splits)

lemma Seal_unfold:
  "Seal s urlStr tmplStr rnd =
     (if length rnd < 12 then
        (Inl (Errorf ''generate nonce: '' (ErrorsNew ''crypto/rand: source failed'')), rnd)
      else
        (Inr (base64_EncodeToString
           (gcm_Seal (GCM (AESCipher (sha256_Sum256 (Secret s)))) (take 12 rnd) (take 12 rnd)
              (''{\"url\":'' @ json_quote urlStr @ '',\"tmpl\":'' @ json_quote tmplStr @ ''}'') [])),
         drop 12 rnd))"
  by (simp add: Seal_def NewCipher_sha256 NewGCM_AES json_Marshal_def rand_Read_def)

subsection \<open>Base64: decoding what was encoded\<close>

lemma index_of_nth: "distinct xs \<Longrightarrow> k < length xs \<Longrightarrow> index_of (xs ! k) xs i = Some (i + k)"
proof (induction xs arbitrary: i k)
  case Nil
  then show ?case by simp
next
  case (Cons x xs)
  show ?case
  proof (cases k)
    case 0
    then show ?thesis by simp
  next
    case (Suc k')
    with Cons.prems have "xs ! k' \<in> set xs" by simp
    with Cons.prems have "x \<noteq> xs ! k'" by auto
    with Cons Suc show ?thesis by simp
  qed
qed

lemma length_encodeURL: "length encodeURL = 64"
  unfolding encodeURL_def by simp

lemma decodeMap_pad: "decodeMap (CHR ''='') = None"
  unfolding decodeMap_def encodeURL_def by simp

lemma distinct_encodeURL: "distinct encodeURL"
  unfolding encodeURL_def by code_simp


lemma pack3_aux:
  "x = q1 * 4 + r1 \<Longrightarrow> y = q2 * 16 + r2 \<Longrightarrow> z = q3 * 64 + r3 \<Longrightarrow>
   q1 * 262144 + (r1 * 16 + q2) * 4096 + (r2 * 4 + q3) * 64 + r3 = x * 65536 + y * 256 + (z::nat)"
  by (simp add: algebra_simps)

lemma pack3:
  "(x div 4) * 262144 + (x mod 4 * 16 + y div 16) * 4096 + (y mod 16 * 4 + z div 64) * 64 + z mod 64
     = x * 65536 + y * 256 + (z::nat)"
  by (rule pack3_aux) simp_all

lemma div_mult_add: "z < b \<Longrightarrow> (m * b + z) div b = (m::nat)"
  by simp

lemma mod_mult_add: "z < b \<Longrightarrow> (m * b + z) mod b = (z::nat)"
  by simp

lemma unpack3:
  fixes x y z :: nat
  assumes "y < 256" "z < 256"
  shows "(x * 65536 + y * 256 + z) div 65536 = x"
    and "(x * 65536 + y * 256 + z) div 256 mod 256 = y"
    and "(x * 65536 + y * 256 + z) mod 256 = z"
proof -
  have lt: "y * 256 + z < 65536" using assms by simp
  have e1: "x * 65536 + y * 256 + z = x * 65536 + (y * 256 + z)" by simp
  have e2: "x * 65536 + y * 256 + z = (x * 256 + y) * 256 + z" by (simp add: algebra_simps)
  show "(x * 65536 + y * 256 + z) div 65536 = x"
    unfolding e1 using lt by (rule div_mult_add)
  have "(x * 65536 + y * 256 + z) div 256 = x * 256 + y"
    unfolding e2 using assms(2) by (rule div_mult_add)
  then show "(x * 65536 + y * 256 + z) div 256 mod 256 = y"
    using assms(1) by (simp only: mod_mult_add)
  show "(x * 65536 + y * 256 + z) mod 256 = z"
    unfolding e2 using assms(2) by (rule mod_mult_add)
qed

lemma decodeMap_b64_char: "decodeMap (b64_char i) = Some (i mod 64)"
  unfolding decodeMap_def b64_char_def
  by (simp add: index_of_nth distinct_encodeURL length_encodeURL)

lemma byte_lt: "byte_val c < 256"
  by simp

lemma quantum_bytes_val:
  "quantum_bytes dlen [d0, d1, d2, d3] =
     take (dlen - 1)
       [byte_of ((d0 * 262144 + d1 * 4096 + d2 * 64 + d3) div 65536),
        byte_of ((d0 * 262144 + d1 * 4096 + d2 * 64 + d3) div 256 mod 256),
        byte_of ((d0 * 262144 + d1 * 4096 + d2 * 64 + d3) mod 256)]"
  unfolding quantum_bytes_def Let_def by simp

lemma quantum3_nat:
  assumes "y < 256" "z < 256"
  shows "quantum_bytes 4 [x div 4, x mod 4 * 16 + y div 16, y mod 16 * 4 + z div 64, z mod 64]
         = [byte_of x, byte_of y, byte_of z]"
  unfolding quantum_bytes_val pack3 unpack3 [OF assms] by simp

lemma quantum2_nat:
  assumes "y < 256"
  shows "quantum_bytes 3 [x div 4, x mod 4 * 16 + y div 16, y mod 16 * 4] = [byte_of x, byte_of y]"
proof -
  have z: "(0::nat) < 256" by simp
  have e: "quantum_bytes 3 [x div 4, x mod 4 * 16 + y div 16, y mod 16 * 4]
         = quantum_bytes 3 [x div 4, x mod 4 * 16 + y div 16, y mod 16 * 4 + 0 div 64, 0 mod 64]"
    unfolding quantum_bytes_def Let_def by simp
  show ?thesis
    unfolding e quantum_bytes_val pack3 unpack3 [OF assms z] by simp
qed

lemma quantum1_nat:
  "quantum_bytes 2 [x div 4, x mod 4 * 16] = [byte_of x]"
proof -
  have z: "(0::nat) < 256" by simp
  have e: "quantum_bytes 2 [x div 4, x mod 4 * 16]
         = quantum_bytes 2 [x div 4, x mod 4 * 16 + 0 div 16, 0 mod 16 * 4 + 0 div 64, 0 mod 64]"
    unfolding quantum_bytes_def Let_def by simp
  show ?thesis
    unfolding e quantum_bytes_val pack3 unpack3 [OF z z] by simp
qed

lemma sextets:
  fixes x y z :: nat
  assumes "x < 256" "y < 256" "z < 256"
  shows "x div 4 mod 64 = x div 4"
    and "(x mod 4 * 16 + y div 16) mod 64 = x mod 4 * 16 + y div 16"
    and "(y mod 16 * 4 + z div 64) mod 64 = y mod 16 * 4 + z div 64"
    and "(x mod 4 * 16) mod 64 = x mod 4 * 16"
    and "(y mod 16 * 4) mod 64 = y mod 16 * 4"
  using assms by (auto intro!: mod_less simp: less_mult_imp_div_less)

lemma quantum1_Suc: "quantum_bytes (Suc (Suc 0)) [byte_val a div 4, byte_val a mod 4 * 16] = [a]"
  using quantum1_nat [of "byte_val a"] by (simp add: numeral_2_eq_2 del: of_char_mod_256)

lemma quantum2_Suc:
  "quantum_bytes (Suc (Suc (Suc 0)))
     [byte_val a div 4, byte_val a mod 4 * 16 + byte_val b div 16, byte_val b mod 16 * 4] = [a, b]"
  using quantum2_nat [of "byte_val b" "byte_val a"] by (simp add: numeral_3_eq_3 del: of_char_mod_256)

lemma not_newline_pad: "\<not> is_newline (CHR ''='')"
  by (simp add: is_newline_def)

lemmas sext = sextets [OF byte_lt byte_lt byte_lt]

lemma decode_encode: "decode_from 0 [] si n (base64_EncodeToString bs) = Inr bs"
proof (induction bs arbitrary: si rule: base64_EncodeToString.induct)
  case 1
  show ?case by simp
next
  case (2 a)
  show ?case
    by (simp add: decodeMap_b64_char decodeMap_pad not_newline_pad padding_tail_def sext quantum1_Suc
        del: of_char_mod_256)
next
  case (3 a b)
  show ?case
    by (simp add: decodeMap_b64_char decodeMap_pad not_newline_pad padding_tail_def sext
        quantum2_Suc del: of_char_mod_256)
next
  case (4 a b c rest)
  show ?case
    by (simp add: decodeMap_b64_char sext quantum3_nat [OF byte_lt byte_lt] 4 del: of_char_mod_256)
qed

lemma base64_roundtrip: "base64_DecodeString (base64_EncodeToString bs) = Inr bs"
  by (simp add: base64_DecodeString_def decode_encode)

lemma base64_inj: "base64_EncodeToString a = base64_EncodeToString b \<Longrightarrow> a = b"
  by (metis base64_roundtrip sum.inject(2))

section \<open>The sealer\<close>

subsection \<open>Tokens that are too short\<close>

lemma byte_of_0: "byte_of 0 = CHR 0x00"
  by (simp add: char_of_def)

lemma decodeMap_A: "decodeMap (CHR ''A'') = Some 0"
  by (simp add: decodeMap_def encodeURL_def)

lemma decodeMap_bang: "decodeMap (CHR ''!'') = None"
  by (simp add: decodeMap_def encodeURL_def)

lemma decode_AAAA: "base64_DecodeString ''AAAA'' = Inr [CHR 0x00, CHR 0x00, CHR 0x00]"
  by (simp add: base64_DecodeString_def decodeMap_A quantum_bytes_def byte_of_0)

lemma decode_16A:
  "base64_DecodeString ''AAAAAAAAAAAAAAAA'' =
     Inr [CHR 0x00, CHR 0x00, CHR 0x00, CHR 0x00, CHR 0x00, CHR 0x00,
          CHR 0x00, CHR 0x00, CHR 0x00, CHR 0x00, CHR 0x00, CHR 0x00]"
  by (simp add: base64_DecodeString_def decodeMap_A quantum_bytes_def byte_of_0)

lemma decode_notbase64: "base64_DecodeString ''!!!notbase64!!!'' = Inl (CorruptInputError 0)"
  by (simp add: base64_DecodeString_def decodeMap_bang is_newline_def)

text \<open>
  Claim C6 (truncation check), as the code has it. The check of \<open>Unseal\<close> compares the
  length of the whole decoded token with the nonce size, 12 bytes: when the token decodes,
  \<open>Unseal\<close> fails with the error \<^verbatim>\<open>token too short\<close> exactly when the decoded token
  is shorter than the nonce. It returns this error as a value; nothing indexes the data
  out of range before the check. Every decoded token of at least 12 and fewer than 28
  bytes has a whole nonce and a remainder shorter than the 16-byte tag: \<open>gcm_Open\<close>
  refuses it, and \<open>Unseal\<close> fails with the decryption error.
\<close>

theorem Unseal_short_token:
  assumes "base64_DecodeString token = Inr data"
  shows "((Unseal s token = Inl (ErrorsNew ''token too short'')) = (length data < 12)) \<and>
         (12 \<le> length data \<and> length data < 28 \<longrightarrow>
            Unseal s token
              = Inl (Errorf ''decrypt token: '' (ErrorsNew ''cipher: message authentication failed'')))"
proof (intro conjI impI)
  show "(Unseal s token = Inl (ErrorsNew ''token too short'')) = (length data < 12)"
    using assms by (simp add: Unseal_unfold split: sum.splits)
next
  assume "12 \<le> length data \<and> length data < 28"
  then have "length (drop 12 data) < gcmTagSize" and "\<not> length data < 12"
    by (auto simp add: gcmTagSize_def)
  then show "Unseal s token
      = Inl (Errorf ''decrypt token: '' (ErrorsNew ''cipher: message authentication failed''))"
    using assms by (simp add: Unseal_unfold errOpen_def)
qed

text \<open>
  The token \<^verbatim>\<open>AAAA\<close> decodes to three bytes and is too short; the token of sixteen
  \<^verbatim>\<open>A\<close> decodes to twelve bytes and fails with the decryption error.
\<close>

theorem Unseal_short_token_witness:
  "base64_DecodeString ''AAAA'' = Inr [CHR 0x00, CHR 0x00, CHR 0x00] \<and>
   Unseal \<lparr>Secret = ''test-secret''\<rparr> ''AAAA'' = Inl (ErrorsNew ''token too short'') \<and>
   base64_DecodeString ''AAAAAAAAAAAAAAAA'' =
     Inr [CHR 0x00, CHR 0x00, CHR 0x00, CHR 0x00, CHR 0x00, CHR 0x00,
          CHR 0x00, CHR 0x00, CHR 0x00, CHR 0x00, CHR 0x00, CHR 0x00] \<and>
   Unseal \<lparr>Secret = ''test-secret''\<rparr> ''AAAAAAAAAAAAAAAA''
     = Inl (Errorf ''decrypt token: '' (ErrorsNew ''cipher: message authentication failed'')) \<and>
   Unseal \<lparr>Secret = ''test-secret''\<rparr> ''AAAAAAAAAAAAAAAA'' \<noteq> Inl (ErrorsNew ''token too short'')"
  using Unseal_short_token [OF decode_AAAA, of "\<lparr>Secret = ''test-secret''\<rparr>"]
    Unseal_short_token [OF decode_16A, of "\<lparr>Secret = ''test-secret''\<rparr>"]
    decode_AAAA decode_16A
  by simp

text \<open>
  As the claim words it, the error would depend on what is left after the nonce. The token
  of sixteen \<^verbatim>\<open>A\<close> decodes to twelve bytes: the nonce is whole, the remainder is
  empty and so shorter than the nonce, and \<open>Unseal\<close> fails with the decryption error,
  not with \<^verbatim>\<open>token too short\<close>.
\<close>

theorem Unseal_short_remainder_counterexample:
  "base64_DecodeString ''AAAAAAAAAAAAAAAA'' =
     Inr [CHR 0x00, CHR 0x00, CHR 0x00, CHR 0x00, CHR 0x00, CHR 0x00,
          CHR 0x00, CHR 0x00, CHR 0x00, CHR 0x00, CHR 0x00, CHR 0x00] \<and>
   length (drop 12 [CHR 0x00, CHR 0x00, CHR 0x00, CHR 0x00, CHR 0x00, CHR 0x00,
          CHR 0x00, CHR 0x00, CHR 0x00, CHR 0x00, CHR 0x00, CHR 0x00]) < 12 \<and>
   Unseal \<lparr>Secret = ''test-secret''\<rparr> ''AAAAAAAAAAAAAAAA''
     = Inl (Errorf ''decrypt token: '' (ErrorsNew ''cipher: message authentication failed''))"
  by (simp add: Unseal_unfold decode_16A gcmTagSize_def errOpen_def)

subsection \<open>Sealing: errors and nonces\<close>

lemma gcm_Seal_append: "gcm_Seal (GCM b) dst nonce plaintext aad = dst @ gcm_Seal (GCM b) [] nonce plaintext aad"
  by (simp add: Let_def)

lemma Seal_Inr:
  assumes "Seal s urlStr tmplStr rnd = (Inr token, rnd1)"
  shows "12 \<le> length rnd"
    and "rnd1 = drop 12 rnd"
    and "token = base64_EncodeToString
           (take 12 rnd @ gcm_Seal (GCM (AESCipher (sha256_Sum256 (Secret s)))) [] (take 12 rnd)
              (''{\"url\":'' @ json_quote urlStr @ '',\"tmpl\":'' @ json_quote tmplStr @ ''}'') [])"
  using assms gcm_Seal_append [of _ "take 12 rnd"]
  by (auto simp: Seal_unfold split: if_splits)

text \<open>
  Claim C9 (when sealing fails). The key is the 32-byte SHA-256 digest of the secret, so
  \<open>aes_NewCipher\<close> and \<open>cipher_NewGCM\<close> always succeed; marshalling the two strings
  always succeeds; and \<open>Seal\<close> returns an error exactly when the random source does, the
  error of the random source wrapped as \<^verbatim>\<open>generate nonce\<close>. When the source delivers the
  nonce, \<open>Seal\<close> returns a token, whatever the two strings are.
\<close>

theorem Seal_fails_only_on_randomness:
  "length (sha256_Sum256 (Secret s)) = 32 \<and>
   aes_NewCipher (sha256_Sum256 (Secret s)) = Inr (AESCipher (sha256_Sum256 (Secret s))) \<and>
   cipher_NewGCM (AESCipher (sha256_Sum256 (Secret s)))
     = Inr (GCM (AESCipher (sha256_Sum256 (Secret s)))) \<and>
   (\<exists>plaintext. json_Marshal \<lparr>URL = urlStr, Tmpl = tmplStr\<rparr> = Inr plaintext) \<and>
   (case rand_Read 12 rnd of
      (Inl err, rnd1) \<Rightarrow> Seal s urlStr tmplStr rnd = (Inl (Errorf ''generate nonce: '' err), rnd1)
    | (Inr nonce, rnd1) \<Rightarrow> (\<exists>token. Seal s urlStr tmplStr rnd = (Inr token, rnd1)))"
  by (simp add: length_sha256_Sum256 NewCipher_sha256 NewGCM_AES json_Marshal_def Seal_unfold
      rand_Read_def)

lemma Seal_twice_iff:
  assumes "Seal s urlStr tmplStr rnd = (Inr t1, rnd1)"
    and "Seal s urlStr tmplStr rnd1 = (Inr t2, rnd2)"
  shows "(t1 = t2) = (take 12 rnd = take 12 rnd1)"
proof -
  note a = Seal_Inr [OF assms(1)] and b = Seal_Inr [OF assms(2)]
  have len: "length (take 12 rnd) = length (take 12 rnd1)"
    using a(1) b(1) by simp
  show ?thesis
  proof
    assume "t1 = t2"
    then have "take 12 rnd @ gcm_Seal (GCM (AESCipher (sha256_Sum256 (Secret s)))) [] (take 12 rnd)
              (''{\"url\":'' @ json_quote urlStr @ '',\"tmpl\":'' @ json_quote tmplStr @ ''}'') []
            = take 12 rnd1 @ gcm_Seal (GCM (AESCipher (sha256_Sum256 (Secret s)))) [] (take 12 rnd1)
              (''{\"url\":'' @ json_quote urlStr @ '',\"tmpl\":'' @ json_quote tmplStr @ ''}'') []"
      using a(3) b(3) base64_inj by blast
    then show "take 12 rnd = take 12 rnd1"
      using len append_eq_append_conv by blast
  next
    assume "take 12 rnd = take 12 rnd1"
    then show "t1 = t2" using a(3) b(3) by simp
  qed
qed

lemma Seal_token:
  assumes "Seal s urlStr tmplStr rnd = (Inr token, rnd1)"
  shows "token = base64_EncodeToString
           (gcm_Seal (GCM (AESCipher (sha256_Sum256 (Secret s)))) (take 12 rnd) (take 12 rnd)
              (''{\"url\":'' @ json_quote urlStr @ '',\"tmpl\":'' @ json_quote tmplStr @ ''}'') [])"
  using assms by (auto simp: Seal_unfold split: if_splits)

text \<open>
  Claim C3 (two calls of \<open>Seal\<close>). Each call reads a fresh 12-byte nonce from the random
  source, the second call the twelve bytes after those of the first, and hands these bytes
  to \<open>gcm_Seal\<close> as the nonce and as the prefix of the sealed data. When the nonce is not
  reused, that is, when the two nonces read differ, two successive calls with the same
  strings under the same secret return different tokens.
\<close>

theorem Seal_fresh_nonce_distinct_tokens:
  assumes "Seal s urlStr tmplStr rnd = (Inr t1, rnd1)"
    and "Seal s urlStr tmplStr rnd1 = (Inr t2, rnd2)"
    and "take 12 rnd \<noteq> take 12 rnd1"
  shows "t1 \<noteq> t2 \<and>
    rand_Read 12 rnd = (Inr (take 12 rnd), rnd1) \<and>
    rand_Read 12 rnd1 = (Inr (take 12 rnd1), rnd2) \<and>
    t1 = base64_EncodeToString
           (gcm_Seal (GCM (AESCipher (sha256_Sum256 (Secret s)))) (take 12 rnd) (take 12 rnd)
              (''{\"url\":'' @ json_quote urlStr @ '',\"tmpl\":'' @ json_quote tmplStr @ ''}'') []) \<and>
    t2 = base64_EncodeToString
           (gcm_Seal (GCM (AESCipher (sha256_Sum256 (Secret s)))) (take 12 rnd1) (take 12 rnd1)
              (''{\"url\":'' @ json_quote urlStr @ '',\"tmpl\":'' @ json_quote tmplStr @ ''}'') [])"
  using Seal_twice_iff [OF assms(1,2)] assms(3) Seal_token [OF assms(1)] Seal_token [OF assms(2)]
    Seal_Inr(1,2) [OF assms(1)] Seal_Inr(1,2) [OF assms(2)]
  by (simp add: rand_Read_def)

text \<open>A source that delivers twelve bytes and then twelve other bytes: the tokens differ.\<close>

theorem Seal_fresh_nonce_distinct_tokens_witness:
  "\<exists>t1 t2.
     Seal \<lparr>Secret = ''test-secret''\<rparr> ''https://example.com'' ''{{.v}}'' ''abcdefghijklmnopqrstuvwx''
       = (Inr t1, ''mnopqrstuvwx'') \<and>
     Seal \<lparr>Secret = ''test-secret''\<rparr> ''https://example.com'' ''{{.v}}'' ''mnopqrstuvwx''
       = (Inr t2, []) \<and>
     take 12 ''abcdefghijklmnopqrstuvwx'' \<noteq> take 12 ''mnopqrstuvwx'' \<and>
     t1 \<noteq> t2"
proof -
  obtain t1 where 1:
    "Seal \<lparr>Secret = ''test-secret''\<rparr> ''https://example.com'' ''{{.v}}'' ''abcdefghijklmnopqrstuvwx''
       = (Inr t1, ''mnopqrstuvwx'')"
    by (simp add: Seal_unfold)
  obtain t2 where 2:
    "Seal \<lparr>Secret = ''test-secret''\<rparr> ''https://example.com'' ''{{.v}}'' ''mnopqrstuvwx''
       = (Inr t2, [])"
    by (simp add: Seal_unfold)
  have 3: "take 12 ''abcdefghijklmnopqrstuvwx'' \<noteq> take 12 ''mnopqrstuvwx''"
    by simp
  have "t1 \<noteq> t2"
    using Seal_fresh_nonce_distinct_tokens [OF 1 2 3] by (rule conjunct1)
  with 1 2 3 show ?thesis by blast
qed

subsection \<open>Bytes under XOR\<close>

lemma take_bit8_byte: "take_bit 8 (byte_val a) = byte_val a"
  by (simp add: take_bit_eq_mod)

lemma xor_byte_mod: "(byte_val a XOR byte_val k) mod 256 = byte_val a XOR byte_val k"
proof -
  have "take_bit 8 (byte_val a XOR byte_val k) = byte_val a XOR byte_val k"
    by (simp only: take_bit_xor take_bit8_byte)
  then show ?thesis by (simp add: take_bit_eq_mod)
qed

lemma xor_char_cancel: "xor_char (xor_char a k) k = a"
proof -
  have "byte_of ((byte_val a XOR byte_val k) mod 256 XOR byte_val k) = a"
    unfolding xor_byte_mod by (simp add: xor.assoc)
  then show ?thesis
    unfolding xor_char_def by (simp only: of_char_of)
qed

lemma xor_bytes_cancel: "length xs \<le> length ks \<Longrightarrow> xor_bytes (xor_bytes xs ks) ks = xs"
  unfolding xor_bytes_def
proof (induction xs arbitrary: ks)
  case Nil
  then show ?case by simp
next
  case (Cons x xs)
  then obtain k ks' where "ks = k # ks'" by (cases ks) auto
  with Cons show ?case by (simp add: xor_char_cancel)
qed

lemma length_xor_bytes: "length (xor_bytes xs ks) = min (length xs) (length ks)"
  by (simp add: xor_bytes_def)

subsection \<open>An AES block has 16 bytes\<close>

lemma key_words_len: "x \<in> set (key_words xs) \<Longrightarrow> length x = 4"
  by (induction xs rule: key_words.induct) auto

lemma length_key_words: "length (key_words xs) = length xs div 4"
  by (induction xs rule: key_words.induct) auto

lemma aes_expand_words:
  assumes "0 < nk" "nk \<le> length w" "\<forall>x\<in>set w. length x = 4"
  shows "(\<forall>x\<in>set (aes_expand k nk rcon w). length x = 4) \<and>
         length (aes_expand k nk rcon w) = length w + k"
  using assms
proof (induction k arbitrary: rcon w)
  case 0
  then show ?case by simp
next
  case (Suc k)
  let ?i = "length w"
  have prev: "length (w ! (?i - 1)) = 4" using Suc.prems by auto
  have bk: "length (w ! (?i - nk)) = 4" using Suc.prems by auto
  have step: "(\<forall>x\<in>set (aes_expand k nk rc (w @ [map2 (XOR) (w ! (?i - nk)) t])). length x = 4) \<and>
      length (aes_expand k nk rc (w @ [map2 (XOR) (w ! (?i - nk)) t])) = length w + Suc k"
    if "length t = 4" for t rc
  proof -
    have "(\<forall>x\<in>set (aes_expand k nk rc (w @ [map2 (XOR) (w ! (?i - nk)) t])). length x = 4) \<and>
      length (aes_expand k nk rc (w @ [map2 (XOR) (w ! (?i - nk)) t]))
        = length (w @ [map2 (XOR) (w ! (?i - nk)) t]) + k"
      using Suc.prems bk that by (intro Suc.IH) auto
    then show ?thesis by simp
  qed
  show ?case
  proof (cases "?i mod nk = 0")
    case True
    have l4: "length (map sub_byte (rotate1 (w ! (?i - 1)))) = 4" using prev by simp
    then obtain t0 ts where t: "map sub_byte (rotate1 (w ! (?i - 1))) = t0 # ts"
      by (cases "map sub_byte (rotate1 (w ! (?i - 1)))") auto
    have "length ts = 3" using l4 unfolding t by simp
    then have l: "length ((t0 XOR rcon) # ts) = 4" by simp
    have e: "aes_expand (Suc k) nk rcon w
        = aes_expand k nk (xtime rcon) (w @ [map2 (XOR) (w ! (?i - nk)) ((t0 XOR rcon) # ts)])"
      using True t by (simp add: Let_def)
    show ?thesis unfolding e by (rule step [OF l])
  next
    case False
    show ?thesis
    proof (cases "6 < nk \<and> ?i mod nk = 4")
      case True
      have l: "length (map sub_byte (w ! (?i - 1))) = 4" using prev by simp
      have e: "aes_expand (Suc k) nk rcon w
          = aes_expand k nk rcon (w @ [map2 (XOR) (w ! (?i - nk)) (map sub_byte (w ! (?i - 1)))])"
        using True False by (simp add: Let_def)
      show ?thesis unfolding e by (rule step [OF l])
    next
      case F2: False
      have e: "aes_expand (Suc k) nk rcon w
          = aes_expand k nk rcon (w @ [map2 (XOR) (w ! (?i - nk)) (w ! (?i - 1))])"
        using F2 False by (auto simp add: Let_def)
      show ?thesis unfolding e by (rule step [OF prev])
    qed
  qed
qed

lemma length_concat4: "\<forall>x\<in>set ws. length x = 4 \<Longrightarrow> length (concat ws) = 4 * length ws"
  by (induction ws) simp_all

lemma length_round_key:
  assumes "\<forall>x\<in>set w. length x = 4" "4 * r + 4 \<le> length w"
  shows "length (round_key w r) = 16"
proof -
  have "\<forall>x\<in>set (take 4 (drop (4 * r) w)). length x = 4"
    using assms(1) by (meson in_set_dropD in_set_takeD)
  then have "length (round_key w r) = 4 * length (take 4 (drop (4 * r) w))"
    unfolding round_key_def by (rule length_concat4)
  then show ?thesis using assms(2) by simp
qed

lemma length_mix_column: "length col = 4 \<Longrightarrow> length (mix_column col) = 4"
  by (auto simp: mix_column_def split: list.splits)

lemma length_mix_columns: "length s = 16 \<Longrightarrow> length (mix_columns s) = 16"
proof -
  assume s: "length s = 16"
  have "\<forall>x\<in>set (map mix_column (key_words s)). length x = 4"
    using key_words_len length_mix_column by auto
  then have "length (mix_columns s) = 4 * length (map mix_column (key_words s))"
    unfolding mix_columns_def by (rule length_concat4)
  then show ?thesis using s by (simp add: length_key_words)
qed

lemma length_shift_rows: "length (shift_rows s) = 16"
  by (simp add: shift_rows_def)

lemma length_aes_rounds:
  assumes "\<forall>x\<in>set w. length x = 4" "length w = 4 * (nr + 1)"
  shows "k \<le> nr \<Longrightarrow> length s = 16 \<Longrightarrow> length (aes_rounds w nr k s) = 16"
proof (induction k arbitrary: s)
  case 0
  then show ?case by simp
next
  case (Suc k)
  have rk: "length (round_key w (nr - k)) = 16"
    using assms Suc.prems by (intro length_round_key) auto
  have "length (map2 (XOR)
      (if nr - k = nr then shift_rows (map sub_byte s) else mix_columns (shift_rows (map sub_byte s)))
      (round_key w (nr - k))) = 16"
    using rk by (simp add: length_shift_rows length_mix_columns)
  then show ?case using Suc by (simp add: Let_def)
qed

lemma length_aes_Encrypt:
  assumes "length key = 32" "length blk = 16"
  shows "length (aes_Encrypt key blk) = 16"
proof -
  let ?w = "aes_key_schedule key"
  have kw: "\<forall>x\<in>set (key_words (map of_char key :: 8 word list)). length x = 4"
    using key_words_len by blast
  have lk: "length (key_words (map of_char key :: 8 word list)) = 8"
    using assms(1) by (simp add: length_key_words)
  have sched: "(\<forall>x\<in>set ?w. length x = 4) \<and> length ?w = 4 * (14 + 1)"
    using aes_expand_words [of 8 "key_words (map of_char key)" 52 1] kw lk assms(1)
    by (simp add: aes_key_schedule_def Let_def)
  have rk0: "length (round_key ?w 0) = 16"
    using sched by (intro length_round_key) auto
  have "length (aes_rounds ?w 14 14 (map2 (XOR) (map of_char blk) (round_key ?w 0))) = 16"
    using sched rk0 assms(2) by (intro length_aes_rounds) auto
  then show ?thesis using assms(1) by (simp add: aes_Encrypt_def Let_def)
qed


subsection \<open>GCM: opening what was sealed\<close>

lemma length_gcm_counter: "length nonce = 12 \<Longrightarrow> length (gcm_counter nonce i) = 16"
  by (simp add: gcm_counter_def length_be32_bytes)

lemma length_block_Encrypt:
  "length key = 32 \<Longrightarrow> length blk = 16 \<Longrightarrow> length (block_Encrypt (AESCipher key) blk) = 16"
  by (simp add: length_aes_Encrypt)

lemma length_gcm_keystream:
  assumes "length key = 32" "length nonce = 12"
  shows "length (gcm_keystream (AESCipher key) nonce k) = 16 * k"
  unfolding gcm_keystream_def
  by (subst length_concat_const [where k = 16])
     (simp_all add: length_aes_Encrypt length_gcm_counter assms)

lemma length_gcm_crypt:
  assumes "length key = 32" "length nonce = 12"
  shows "length (gcm_crypt (AESCipher key) nonce xs) = length xs"
proof -
  have "length xs \<le> 16 * ((length xs + 15) div 16)" by presburger
  then show ?thesis
    by (simp add: gcm_crypt_def length_xor_bytes length_gcm_keystream assms)
qed

lemma gcm_crypt_cancel:
  assumes "length key = 32" "length nonce = 12"
  shows "gcm_crypt (AESCipher key) nonce (gcm_crypt (AESCipher key) nonce xs) = xs"
proof -
  let ?ks = "gcm_keystream (AESCipher key) nonce ((length xs + 15) div 16)"
  have le: "length xs \<le> length ?ks"
  proof -
    have "length xs \<le> 16 * ((length xs + 15) div 16)" by presburger
    then show ?thesis by (simp add: length_gcm_keystream assms)
  qed
  have "gcm_crypt (AESCipher key) nonce (gcm_crypt (AESCipher key) nonce xs)
        = xor_bytes (xor_bytes xs ?ks) ?ks"
    using length_gcm_crypt [OF assms, of xs] by (simp add: gcm_crypt_def)
  then show ?thesis using le by (simp add: xor_bytes_cancel)
qed

lemma length_be128_bytes: "length (be128_bytes w) = 16"
  by (simp add: be128_bytes_def)

lemma length_gcm_tag:
  assumes "length key = 32" "length nonce = 12"
  shows "length (gcm_tag (AESCipher key) nonce aad ct) = 16"
  by (simp add: gcm_tag_def Let_def length_xor_bytes length_be128_bytes length_aes_Encrypt
      length_gcm_counter assms)

lemma gcm_Open_Seal:
  assumes "length key = 32" "length nonce = 12"
  shows "gcm_Open (GCM (AESCipher key)) [] nonce
           (gcm_Seal (GCM (AESCipher key)) [] nonce plaintext []) [] = Inr plaintext"
  by (simp add: Let_def gcmTagSize_def length_gcm_tag [OF assms] gcm_crypt_cancel [OF assms])

subsection \<open>Unsealing what was sealed\<close>

text \<open>
  A token that \<open>Seal\<close> returned decodes, is long enough and opens under the same secret:
  \<open>Unseal\<close> returns what \<^verbatim>\<open>json.Unmarshal\<close> reads from the text that
  \<^verbatim>\<open>json.Marshal\<close> wrote.
\<close>

lemma Unseal_Seal:
  assumes "Seal s u t rnd = (Inr token, rnd1)"
  shows "Unseal s token =
     (case json_Unmarshal_sealedConfig
             (''{\"url\":'' @ json_quote u @ '',\"tmpl\":'' @ json_quote t @ ''}'') of
        Inl err \<Rightarrow> Inl (Errorf ''unmarshal config: '' err)
      | Inr cfg \<Rightarrow> Inr (URL cfg, Tmpl cfg))"
proof -
  let ?G = "GCM (AESCipher (sha256_Sum256 (Secret s)))"
  let ?P = "''{\"url\":'' @ json_quote u @ '',\"tmpl\":'' @ json_quote t @ ''}''"
  let ?C = "gcm_Seal ?G [] (take 12 rnd) ?P []"
  note a = Seal_Inr [OF assms]
  have l: "length (take 12 rnd) = 12" using a(1) by simp
  have d: "base64_DecodeString token = Inr (take 12 rnd @ ?C)"
    unfolding a(3) by (rule base64_roundtrip)
  have nl: "\<not> length (take 12 rnd @ ?C) < 12" using l by simp
  have t12: "take 12 (take 12 rnd @ ?C) = take 12 rnd" using l by simp
  have d12: "drop 12 (take 12 rnd @ ?C) = ?C" using l by simp
  have op: "gcm_Open ?G [] (take 12 rnd) ?C [] = Inr ?P"
    using a(1) by (intro gcm_Open_Seal) (simp_all add: length_sha256_Sum256)
  show ?thesis
    unfolding Unseal_unfold d by (simp only: sum.case nl if_False t12 d12 op)
qed

lemma Seal_test_token:
  "Seal \<lparr>Secret = ''test-secret''\<rparr> u t ''abcdefghijkl'' = (Inr (test_token u t), [])"
  by (simp add: test_token_def Seal_unfold)

lemma Unseal_test_token:
  assumes "json_Unmarshal_sealedConfig
             (''{\"url\":'' @ json_quote u @ '',\"tmpl\":'' @ json_quote t @ ''}'')
           = Inr \<lparr>URL = u1, Tmpl = t1\<rparr>"
  shows "Unseal \<lparr>Secret = ''test-secret''\<rparr> (test_token u t) = Inr (u1, t1)"
  using Unseal_Seal [OF Seal_test_token, of u t] assms by simp

lemma EncodeRune_RuneError: "utf8_EncodeRune 0xFFFD = [CHR 0xEF, CHR 0xBF, CHR 0xBD]"
  by (simp add: utf8_EncodeRune_def char_of_eq_iff)

lemma Unmarshal_invalid_utf8:
  "json_Unmarshal_sealedConfig
     (''{\"url\":'' @ json_quote ''http://remote.example.com'' @ '',\"tmpl\":''
        @ json_quote [CHR ''c'', CHR ''a'', CHR ''f'', CHR 0xE9] @ ''}'')
   = Inr \<lparr>URL = ''http://remote.example.com'',
          Tmpl = [CHR ''c'', CHR ''a'', CHR ''f'', CHR 0xEF, CHR 0xBF, CHR 0xBD]\<rparr>"
  by (simp add: json_Unmarshal_sealedConfig_def json_parse_def json_quote_def escape_ascii_def
      RuneError_def skip_ws_def is_ws_def maxNestingDepth_def hex_val_def in_range_def EncodeRune_RuneError
      prepend_def fold_eq_def ascii_upper_def char_of_eq_iff)

text \<open>
  Claim C1 (round trip) fails on a string that is not valid UTF-8. \<^verbatim>\<open>json.Marshal\<close>
  writes every byte that is not part of a well-formed encoding as the escape of U+FFFD, so
  the byte is lost: the template of the four bytes \<^verbatim>\<open>c a f 0xE9\<close> (the word
  \<^verbatim>\<open>caf\<close> and an e with acute accent in Latin-1) is sealed without error, and
  \<open>Unseal\<close> of the token returns a template of six bytes that ends in the three bytes
  \<^verbatim>\<open>EF BF BD\<close> of U+FFFD.
\<close>

theorem Unseal_Seal_invalid_utf8:
  "Seal \<lparr>Secret = ''test-secret''\<rparr> ''http://remote.example.com''
       [CHR ''c'', CHR ''a'', CHR ''f'', CHR 0xE9] ''abcdefghijkl''
     = (Inr (test_token ''http://remote.example.com'' [CHR ''c'', CHR ''a'', CHR ''f'', CHR 0xE9]), []) \<and>
   Unseal \<lparr>Secret = ''test-secret''\<rparr>
       (test_token ''http://remote.example.com'' [CHR ''c'', CHR ''a'', CHR ''f'', CHR 0xE9])
     = Inr (''http://remote.example.com'',
            [CHR ''c'', CHR ''a'', CHR ''f'', CHR 0xEF, CHR 0xBF, CHR 0xBD])"
  using Seal_test_token [of "''http://remote.example.com''" "[CHR ''c'', CHR ''a'', CHR ''f'', CHR 0xE9]"]
    Unseal_test_token [OF Unmarshal_invalid_utf8]
  by (intro conjI)

section \<open>The webhook handler\<close>

subsection \<open>Tokens that do not unseal\<close>

lemma padding_tail_error:
  "padding_tail j dbuf si n cs = Inl e \<Longrightarrow> \<exists>k. e = CorruptInputError k"
  by (auto simp: padding_tail_def Let_def split: if_splits prod.splits list.splits sum.splits)

lemma decode_from_error:
  "decode_from j dbuf si n s = Inl e \<Longrightarrow> \<exists>k. e = CorruptInputError k"
proof (induction j dbuf si n s rule: decode_from.induct)
  case (1 j dbuf si n)
  then show ?case by (auto split: if_splits)
next
  case (2 j dbuf si n c cs)
  then show ?case
    by (auto split: option.splits if_splits sum.splits dest: padding_tail_error)
qed

lemma DecodeString_error:
  "base64_DecodeString token = Inl e \<Longrightarrow> \<exists>k. e = CorruptInputError k"
  unfolding base64_DecodeString_def by (rule decode_from_error)

lemma gcm_Open_error:
  "gcm_Open (GCM b) dst nonce ciphertext aad = Inl e \<Longrightarrow> e = errOpen"
  by (auto simp: Let_def split: if_splits)

lemma Unseal_error:
  assumes "Unseal s token = Inl e"
  shows "(\<exists>k. e = Errorf ''decode token: '' (CorruptInputError k)) \<or>
         e = ErrorsNew ''token too short'' \<or>
         e = Errorf ''decrypt token: '' (ErrorsNew ''cipher: message authentication failed'') \<or>
         (\<exists>e1. e = Errorf ''unmarshal config: '' e1)"
proof (cases "base64_DecodeString token")
  case (Inl err)
  then show ?thesis using assms DecodeString_error [OF Inl] by (auto simp: Unseal_unfold)
next
  case (Inr data)
  show ?thesis
  proof (cases "length data < 12")
    case True
    then show ?thesis using assms Inr by (simp add: Unseal_unfold)
  next
    case False
    show ?thesis
    proof (cases "gcm_Open (GCM (AESCipher (sha256_Sum256 (Secret s)))) [] (take 12 data) (drop 12 data) []")
      case (Inl err)
      then have "err = errOpen" by (rule gcm_Open_error)
      then show ?thesis using assms Inr False Inl by (simp add: Unseal_unfold errOpen_def)
    next
      case plain: (Inr plaintext)
      then show ?thesis using assms Inr False
        by (auto simp: Unseal_unfold split: sum.splits)
    qed
  qed
qed

lemma Unseal_notbase64:
  "Unseal s ''!!!notbase64!!!'' = Inl (Errorf ''decode token: '' (CorruptInputError 0))"
  by (simp add: Unseal_unfold decode_notbase64)

lemma Unseal_AAAA: "Unseal s ''AAAA'' = Inl (ErrorsNew ''token too short'')"
  by (simp add: Unseal_unfold decode_AAAA)

lemma Unseal_16A:
  "Unseal s ''AAAAAAAAAAAAAAAA''
     = Inl (Errorf ''decrypt token: '' (ErrorsNew ''cipher: message authentication failed''))"
  by (simp add: Unseal_unfold decode_16A gcmTagSize_def errOpen_def)

lemma Itoa_0: "Itoa 0 = ''0''"
  by code_simp

lemma sealer_test_server: "sealer (test_server client) = \<lparr>Secret = ''test-secret''\<rparr>"
  by (simp add: test_server_def)

lemma client_Do_test_server: "client_Do (test_server client) = client"
  by (simp add: test_server_def)

lemma templates_test_server: "templates (test_server client) k = None"
  by (simp add: test_server_def)

text \<open>
  Claim C5 (what the caller is told when the token does not unseal), as the code has it.
  The handler answers 400, sends nothing and leaves the server as it was; the message is
  \<^verbatim>\<open>invalid token: \<close> followed by the message of the error of \<open>Unseal\<close>, and that
  error names the check that failed: it wraps the decoding error under
  \<^verbatim>\<open>decode token: \<close>, or it is \<^verbatim>\<open>token too short\<close>, or it wraps the
  authentication failure under \<^verbatim>\<open>decrypt token: \<close>, or the error of
  \<^verbatim>\<open>json.Unmarshal\<close> under \<^verbatim>\<open>unmarshal config: \<close>.
\<close>

theorem handleWebhook_invalid_token:
  assumes "Unseal (sealer s) (req_token r) = Inl e"
  shows "handleWebhook lib s r
           = (\<lparr>reply_status = 400, reply_payload = ErrorJSON (Errorf ''invalid token: '' e)\<rparr>, [], s) \<and>
         ((\<exists>k. e = Errorf ''decode token: '' (CorruptInputError k)) \<or>
          e = ErrorsNew ''token too short'' \<or>
          e = Errorf ''decrypt token: '' (ErrorsNew ''cipher: message authentication failed'') \<or>
          (\<exists>e1. e = Errorf ''unmarshal config: '' e1))"
  using assms Unseal_error [OF assms]
  by (simp add: handleWebhook_def Server_error_def StatusBadRequest_def)

text \<open>The token of the test \<^verbatim>\<open>invalid token returns 400\<close>.\<close>

theorem handleWebhook_invalid_token_witness:
  "Unseal (sealer (test_server remote_ok)) ''!!!notbase64!!!''
     = Inl (Errorf ''decode token: '' (CorruptInputError 0)) \<and>
   handleWebhook test_library (test_server remote_ok)
       \<lparr>req_method = ''GET'', req_token = ''!!!notbase64!!!'', req_body = Inr []\<rparr>
     = (\<lparr>reply_status = 400,
         reply_payload =
           ErrorJSON (Errorf ''invalid token: '' (Errorf ''decode token: '' (CorruptInputError 0)))\<rparr>,
        [], test_server remote_ok)"
  using handleWebhook_invalid_token [of "test_server remote_ok"
      "\<lparr>req_method = ''GET'', req_token = ''!!!notbase64!!!'', req_body = Inr []\<rparr>"
      "Errorf ''decode token: '' (CorruptInputError 0)" test_library]
    Unseal_notbase64 [of "sealer (test_server remote_ok)"]
  by simp

text \<open>
  As the claim words it, the caller could not tell which check failed. Three tokens that
  fail three different checks are a counterexample: the first is not base64, the second
  decodes to three bytes, the third decodes to twelve bytes that do not authenticate, and
  the three messages differ.
\<close>

theorem handleWebhook_token_message_counterexample:
  "reply_payload (fst (handleWebhook test_library (test_server remote_ok)
       \<lparr>req_method = ''GET'', req_token = ''!!!notbase64!!!'', req_body = Inr []\<rparr>))
     = ErrorJSON (Errorf ''invalid token: '' (Errorf ''decode token: '' (CorruptInputError 0))) \<and>
   Error_message (Errorf ''invalid token: '' (Errorf ''decode token: '' (CorruptInputError 0)))
     = Some ''invalid token: decode token: illegal base64 data at input byte 0'' \<and>
   reply_payload (fst (handleWebhook test_library (test_server remote_ok)
       \<lparr>req_method = ''GET'', req_token = ''AAAA'', req_body = Inr []\<rparr>))
     = ErrorJSON (Errorf ''invalid token: '' (ErrorsNew ''token too short'')) \<and>
   Error_message (Errorf ''invalid token: '' (ErrorsNew ''token too short''))
     = Some ''invalid token: token too short'' \<and>
   reply_payload (fst (handleWebhook test_library (test_server remote_ok)
       \<lparr>req_method = ''GET'', req_token = ''AAAAAAAAAAAAAAAA'', req_body = Inr []\<rparr>))
     = ErrorJSON (Errorf ''invalid token: ''
         (Errorf ''decrypt token: '' (ErrorsNew ''cipher: message authentication failed''))) \<and>
   Error_message (Errorf ''invalid token: ''
         (Errorf ''decrypt token: '' (ErrorsNew ''cipher: message authentication failed'')))
     = Some ''invalid token: decrypt token: cipher: message authentication failed''"
  by (simp add: handleWebhook_def Unseal_notbase64 Unseal_AAAA Unseal_16A Server_error_def Itoa_0)

subsection \<open>Status codes\<close>

lemma Unmarshal_static:
  "json_Unmarshal_sealedConfig
     (''{\"url\":'' @ json_quote ''http://remote.example.com'' @ '',\"tmpl\":''
        @ json_quote ''static-payload'' @ ''}'')
   = Inr \<lparr>URL = ''http://remote.example.com'', Tmpl = ''static-payload''\<rparr>"
  by code_simp

lemma Unseal_static:
  "Unseal \<lparr>Secret = ''test-secret''\<rparr> (test_token ''http://remote.example.com'' ''static-payload'')
     = Inr (''http://remote.example.com'', ''static-payload'')"
  by (rule Unseal_test_token [OF Unmarshal_static])

lemma Unmarshal_unclosed:
  "json_Unmarshal_sealedConfig
     (''{\"url\":'' @ json_quote ''http://remote.example.com'' @ '',\"tmpl\":''
        @ json_quote ''{{'' @ ''}'')
   = Inr \<lparr>URL = ''http://remote.example.com'', Tmpl = ''{{''\<rparr>"
  by code_simp

lemma Unmarshal_nil_field:
  "json_Unmarshal_sealedConfig
     (''{\"url\":'' @ json_quote ''http://remote.example.com'' @ '',\"tmpl\":''
        @ json_quote ''{{.a.b}}'' @ ''}'')
   = Inr \<lparr>URL = ''http://remote.example.com'', Tmpl = ''{{.a.b}}''\<rparr>"
  by code_simp

lemma Unmarshal_bad_url:
  "json_Unmarshal_sealedConfig
     (''{\"url\":'' @ json_quote ''://bad'' @ '',\"tmpl\":'' @ json_quote ''static-payload'' @ ''}'')
   = Inr \<lparr>URL = ''://bad'', Tmpl = ''static-payload''\<rparr>"
  by code_simp

lemmas Unseal_unclosed = Unseal_test_token [OF Unmarshal_unclosed]

lemmas Unseal_nil_field = Unseal_test_token [OF Unmarshal_nil_field]

lemmas Unseal_bad_url = Unseal_test_token [OF Unmarshal_bad_url]

lemma Unmarshal_map_not_json: "json_Unmarshal_map ''not-json'' = Inl SyntaxError"
  by code_simp

lemma Server_template_miss:
  "templates s (template_key u t) = None \<Longrightarrow> \<not> has_action t \<Longrightarrow>
   Server_template lib s u t
     = (Inr (Template t), s\<lparr>templates := (templates s)(template_key u t \<mapsto> Template t)\<rparr>)"
  by (simp add: Server_template_def template_Parse_def)


text \<open>
  Claim C7 (status codes of the relay). A token that does not unseal is answered 400 and
  nothing is sent. After a token that unseals: a body that is not empty and that
  \<^verbatim>\<open>json.Unmarshal\<close> refuses is answered 400; a template that is not yet cached and
  does not parse is answered 400; a template that fails to execute is answered 500; a
  request that cannot be created is answered 500; in all these cases nothing is sent. A
  request that the client fails to deliver is answered 500, and it is the one request
  handed to the client.
\<close>

theorem handleWebhook_status:
  "(Unseal (sealer s) (req_token r) = Inl e1 \<longrightarrow>
      handleWebhook lib s r
        = (\<lparr>reply_status = 400, reply_payload = ErrorJSON (Errorf ''invalid token: '' e1)\<rparr>,
           [], s)) \<and>
   (Unseal (sealer s) (req_token r) = Inr (u, t) \<and> req_body r = Inr body \<and> body \<noteq> [] \<and>
    json_Unmarshal_map body = Inl e2 \<longrightarrow>
      handleWebhook lib s r
        = (\<lparr>reply_status = 400, reply_payload = ErrorJSON (Errorf ''invalid JSON: '' e2)\<rparr>,
           [], s)) \<and>
   (Unseal (sealer s) (req_token r) = Inr (u, t) \<and> req_body r = Inr body \<and>
    (if body = [] then Inr None else json_Unmarshal_map body) = Inr data \<and>
    templates s (template_key u t) = None \<and> template_Parse lib t = Inl e3 \<longrightarrow>
      handleWebhook lib s r
        = (\<lparr>reply_status = 400,
            reply_payload = ErrorJSON (Errorf ''invalid template: '' (Errorf ''parse template: '' e3))\<rparr>,
           [], s)) \<and>
   (Unseal (sealer s) (req_token r) = Inr (u, t) \<and> req_body r = Inr body \<and>
    (if body = [] then Inr None else json_Unmarshal_map body) = Inr data \<and>
    Server_template lib s u t = (Inr tmpl, s1) \<and> template_Execute lib tmpl data = Inl e4 \<longrightarrow>
      handleWebhook lib s r
        = (\<lparr>reply_status = 500,
            reply_payload = ErrorJSON (Errorf ''failed to execute template: '' e4)\<rparr>,
           [], s1)) \<and>
   (Unseal (sealer s) (req_token r) = Inr (u, t) \<and> req_body r = Inr body \<and>
    (if body = [] then Inr None else json_Unmarshal_map body) = Inr data \<and>
    Server_template lib s u t = (Inr tmpl, s1) \<and> template_Execute lib tmpl data = Inr buf \<and>
    new_request_error lib (req_method r) u = Some e5 \<longrightarrow>
      handleWebhook lib s r
        = (\<lparr>reply_status = 500,
            reply_payload = ErrorJSON (Errorf ''failed to create request: '' e5)\<rparr>,
           [], s1)) \<and>
   (Unseal (sealer s) (req_token r) = Inr (u, t) \<and> req_body r = Inr body \<and>
    (if body = [] then Inr None else json_Unmarshal_map body) = Inr data \<and>
    Server_template lib s u t = (Inr tmpl, s1) \<and> template_Execute lib tmpl data = Inr buf \<and>
    new_request_error lib (req_method r) u = None \<and>
    client_Do s \<lparr>out_method = req_method r, out_url = u, out_body = buf\<rparr> = Inl e6 \<longrightarrow>
      handleWebhook lib s r
        = (\<lparr>reply_status = 500,
            reply_payload = ErrorJSON (Errorf ''failed to send request: '' e6)\<rparr>,
           [\<lparr>out_method = req_method r, out_url = u, out_body = buf\<rparr>], s1))"
proof (intro conjI impI; (elim conjE)?)
  assume "Unseal (sealer s) (req_token r) = Inl e1"
  then show "handleWebhook lib s r
        = (\<lparr>reply_status = 400, reply_payload = ErrorJSON (Errorf ''invalid token: '' e1)\<rparr>,
           [], s)"
    by (simp add: handleWebhook_def Server_error_def StatusBadRequest_def)
next
  assume "Unseal (sealer s) (req_token r) = Inr (u, t)" "req_body r = Inr body" "body \<noteq> []"
    "json_Unmarshal_map body = Inl e2"
  then show "handleWebhook lib s r
        = (\<lparr>reply_status = 400, reply_payload = ErrorJSON (Errorf ''invalid JSON: '' e2)\<rparr>,
           [], s)"
    by (simp add: handleWebhook_def Server_error_def StatusBadRequest_def)
next
  assume "Unseal (sealer s) (req_token r) = Inr (u, t)" "req_body r = Inr body"
    "(if body = [] then Inr None else json_Unmarshal_map body) = Inr data"
    "templates s (template_key u t) = None" "template_Parse lib t = Inl e3"
  then show "handleWebhook lib s r
        = (\<lparr>reply_status = 400,
            reply_payload = ErrorJSON (Errorf ''invalid template: '' (Errorf ''parse template: '' e3))\<rparr>,
           [], s)"
    by (simp add: handleWebhook_def Server_error_def StatusBadRequest_def Server_template_def
        split: if_splits)
next
  assume "Unseal (sealer s) (req_token r) = Inr (u, t)" "req_body r = Inr body"
    "(if body = [] then Inr None else json_Unmarshal_map body) = Inr data"
    "Server_template lib s u t = (Inr tmpl, s1)" "template_Execute lib tmpl data = Inl e4"
  then show "handleWebhook lib s r
        = (\<lparr>reply_status = 500,
            reply_payload = ErrorJSON (Errorf ''failed to execute template: '' e4)\<rparr>,
           [], s1)"
    by (simp add: handleWebhook_def Server_error_def StatusInternalServerError_def
        split: if_splits)
next
  assume "Unseal (sealer s) (req_token r) = Inr (u, t)" "req_body r = Inr body"
    "(if body = [] then Inr None else json_Unmarshal_map body) = Inr data"
    "Server_template lib s u t = (Inr tmpl, s1)" "template_Execute lib tmpl data = Inr buf"
    "new_request_error lib (req_method r) u = Some e5"
  then show "handleWebhook lib s r
        = (\<lparr>reply_status = 500,
            reply_payload = ErrorJSON (Errorf ''failed to create request: '' e5)\<rparr>,
           [], s1)"
    by (simp add: handleWebhook_def Server_error_def StatusInternalServerError_def
        split: if_splits)
next
  assume "Unseal (sealer s) (req_token r) = Inr (u, t)" "req_body r = Inr body"
    "(if body = [] then Inr None else json_Unmarshal_map body) = Inr data"
    "Server_template lib s u t = (Inr tmpl, s1)" "template_Execute lib tmpl data = Inr buf"
    "new_request_error lib (req_method r) u = None"
    "client_Do s \<lparr>out_method = req_method r, out_url = u, out_body = buf\<rparr> = Inl e6"
  then show "handleWebhook lib s r
        = (\<lparr>reply_status = 500,
            reply_payload = ErrorJSON (Errorf ''failed to send request: '' e6)\<rparr>,
           [\<lparr>out_method = req_method r, out_url = u, out_body = buf\<rparr>], s1)"
    by (simp add: handleWebhook_def Server_error_def StatusInternalServerError_def Let_def
        split: if_splits)
qed

text \<open>One request for each of the six cases.\<close>

theorem handleWebhook_status_witness:
  "handleWebhook test_library (test_server remote_ok)
       \<lparr>req_method = ''GET'', req_token = ''!!!notbase64!!!'', req_body = Inr []\<rparr>
     = (\<lparr>reply_status = 400,
         reply_payload =
           ErrorJSON (Errorf ''invalid token: '' (Errorf ''decode token: '' (CorruptInputError 0)))\<rparr>,
        [], test_server remote_ok) \<and>
   handleWebhook test_library (test_server remote_ok)
       \<lparr>req_method = ''GET'',
        req_token = test_token ''http://remote.example.com'' ''static-payload'',
        req_body = Inr ''not-json''\<rparr>
     = (\<lparr>reply_status = 400,
         reply_payload = ErrorJSON (Errorf ''invalid JSON: '' SyntaxError)\<rparr>,
        [], test_server remote_ok) \<and>
   handleWebhook test_library (test_server remote_ok)
       \<lparr>req_method = ''POST'',
        req_token = test_token ''http://remote.example.com'' ''{{'',
        req_body = Inr []\<rparr>
     = (\<lparr>reply_status = 400,
         reply_payload =
           ErrorJSON (Errorf ''invalid template: ''
             (Errorf ''parse template: '' (TemplateError ''template: :1: unclosed action'')))\<rparr>,
        [], test_server remote_ok) \<and>
   fst (handleWebhook test_library (test_server remote_ok)
       \<lparr>req_method = ''POST'',
        req_token = test_token ''http://remote.example.com'' ''{{.a.b}}'',
        req_body = Inr []\<rparr>)
     = \<lparr>reply_status = 500,
         reply_payload =
           ErrorJSON (Errorf ''failed to execute template: ''
             (TemplateError ''nil pointer evaluating interface {}.b''))\<rparr> \<and>
   fst (handleWebhook test_library (test_server remote_ok)
       \<lparr>req_method = ''POST'',
        req_token = test_token ''://bad'' ''static-payload'',
        req_body = Inr []\<rparr>)
     = \<lparr>reply_status = 500,
         reply_payload =
           ErrorJSON (Errorf ''failed to create request: '' (ErrorsNew ''missing protocol scheme''))\<rparr> \<and>
   fst (handleWebhook test_library (test_server remote_closed)
       \<lparr>req_method = ''POST'',
        req_token = test_token ''http://remote.example.com'' ''static-payload'',
        req_body = Inr []\<rparr>)
     = \<lparr>reply_status = 500,
         reply_payload =
           ErrorJSON (Errorf ''failed to send request: '' (TransportError ''connection refused''))\<rparr>"
proof (intro conjI)
  let ?u = "''http://remote.example.com''"
  show "handleWebhook test_library (test_server remote_ok)
       \<lparr>req_method = ''GET'', req_token = ''!!!notbase64!!!'', req_body = Inr []\<rparr>
     = (\<lparr>reply_status = 400,
         reply_payload =
           ErrorJSON (Errorf ''invalid token: '' (Errorf ''decode token: '' (CorruptInputError 0)))\<rparr>,
        [], test_server remote_ok)"
    using handleWebhook_status [where s = "test_server remote_ok" and lib = test_library
        and r = "\<lparr>req_method = ''GET'', req_token = ''!!!notbase64!!!'', req_body = Inr []\<rparr>"
        and ?e1.0 = "Errorf ''decode token: '' (CorruptInputError 0)", THEN conjunct1]
    by (simp add: Unseal_notbase64)
  show "handleWebhook test_library (test_server remote_ok)
       \<lparr>req_method = ''GET'', req_token = test_token ?u ''static-payload'',
        req_body = Inr ''not-json''\<rparr>
     = (\<lparr>reply_status = 400,
         reply_payload = ErrorJSON (Errorf ''invalid JSON: '' SyntaxError)\<rparr>,
        [], test_server remote_ok)"
    using handleWebhook_status [where s = "test_server remote_ok" and lib = test_library
        and r = "\<lparr>req_method = ''GET'', req_token = test_token ?u ''static-payload'',
                  req_body = Inr ''not-json''\<rparr>"
        and u = ?u and t = "''static-payload''" and body = "''not-json''" and ?e2.0 = SyntaxError,
        THEN conjunct2, THEN conjunct1]
    by (simp add: sealer_test_server Unseal_static Unmarshal_map_not_json)
  show "handleWebhook test_library (test_server remote_ok)
       \<lparr>req_method = ''POST'', req_token = test_token ?u ''{{'', req_body = Inr []\<rparr>
     = (\<lparr>reply_status = 400,
         reply_payload =
           ErrorJSON (Errorf ''invalid template: ''
             (Errorf ''parse template: '' (TemplateError ''template: :1: unclosed action'')))\<rparr>,
        [], test_server remote_ok)"
    using handleWebhook_status [where s = "test_server remote_ok" and lib = test_library
        and r = "\<lparr>req_method = ''POST'', req_token = test_token ?u ''{{'', req_body = Inr []\<rparr>"
        and u = ?u and t = "''{{''" and body = "[]" and data = None
        and ?e3.0 = "TemplateError ''template: :1: unclosed action''",
        THEN conjunct2, THEN conjunct2, THEN conjunct1]
    by (simp add: sealer_test_server Unseal_unclosed templates_test_server template_Parse_def
        test_library_def)
  show "fst (handleWebhook test_library (test_server remote_ok)
       \<lparr>req_method = ''POST'', req_token = test_token ?u ''{{.a.b}}'', req_body = Inr []\<rparr>)
     = \<lparr>reply_status = 500,
         reply_payload =
           ErrorJSON (Errorf ''failed to execute template: ''
             (TemplateError ''nil pointer evaluating interface {}.b''))\<rparr>"
    using handleWebhook_status [where s = "test_server remote_ok" and lib = test_library
        and r = "\<lparr>req_method = ''POST'', req_token = test_token ?u ''{{.a.b}}'', req_body = Inr []\<rparr>"
        and u = ?u and t = "''{{.a.b}}''" and body = "[]" and data = None
        and tmpl = "Template ''{{.a.b}}''"
        and ?s1.0 = "(test_server remote_ok)\<lparr>templates :=
              (templates (test_server remote_ok))(template_key ?u ''{{.a.b}}'' \<mapsto> Template ''{{.a.b}}'')\<rparr>"
        and ?e4.0 = "TemplateError ''nil pointer evaluating interface {}.b''",
        THEN conjunct2, THEN conjunct2, THEN conjunct2, THEN conjunct1]
    by (simp add: sealer_test_server Unseal_nil_field templates_test_server Server_template_def
        template_Parse_def test_library_def)
  show "fst (handleWebhook test_library (test_server remote_ok)
       \<lparr>req_method = ''POST'', req_token = test_token ''://bad'' ''static-payload'',
        req_body = Inr []\<rparr>)
     = \<lparr>reply_status = 500,
         reply_payload =
           ErrorJSON (Errorf ''failed to create request: '' (ErrorsNew ''missing protocol scheme''))\<rparr>"
    using handleWebhook_status [where s = "test_server remote_ok" and lib = test_library
        and r = "\<lparr>req_method = ''POST'', req_token = test_token ''://bad'' ''static-payload'',
                  req_body = Inr []\<rparr>"
        and u = "''://bad''" and t = "''static-payload''" and body = "[]" and data = None
        and tmpl = "Template ''static-payload''" and buf = "''static-payload''"
        and ?s1.0 = "(test_server remote_ok)\<lparr>templates :=
              (templates (test_server remote_ok))(template_key ''://bad'' ''static-payload''
                 \<mapsto> Template ''static-payload'')\<rparr>"
        and ?e5.0 = "ErrorsNew ''missing protocol scheme''",
        THEN conjunct2, THEN conjunct2, THEN conjunct2, THEN conjunct2, THEN conjunct1]
    by (simp add: sealer_test_server Unseal_bad_url templates_test_server Server_template_miss
        test_library_def)
  show "fst (handleWebhook test_library (test_server remote_closed)
       \<lparr>req_method = ''POST'', req_token = test_token ?u ''static-payload'', req_body = Inr []\<rparr>)
     = \<lparr>reply_status = 500,
         reply_payload =
           ErrorJSON (Errorf ''failed to send request: '' (TransportError ''connection refused''))\<rparr>"
    using handleWebhook_status [where s = "test_server remote_closed" and lib = test_library
        and r = "\<lparr>req_method = ''POST'', req_token = test_token ?u ''static-payload'',
                  req_body = Inr []\<rparr>"
        and u = ?u and t = "''static-payload''" and body = "[]" and data = None
        and tmpl = "Template ''static-payload''" and buf = "''static-payload''"
        and ?s1.0 = "(test_server remote_closed)\<lparr>templates :=
              (templates (test_server remote_closed))(template_key ?u ''static-payload''
                 \<mapsto> Template ''static-payload'')\<rparr>"
        and ?e6.0 = "TransportError ''connection refused''",
        THEN conjunct2, THEN conjunct2, THEN conjunct2, THEN conjunct2, THEN conjunct2]
    by (simp add: sealer_test_server Unseal_static templates_test_server Server_template_miss
        test_library_def remote_closed_def client_Do_test_server)
qed

subsection \<open>An empty body\<close>

lemma Execute_static: "\<not> has_action t \<Longrightarrow> template_Execute lib (Template t) data = Inr t"
  by simp



subsection \<open>Bodies that are JSON\<close>

lemma handleWebhook_json_accepted:
  assumes "Unseal (sealer s) (req_token r) = Inr (u, t)"
    and "req_body r = Inr body"
    and "(if 0 < length body then json_Unmarshal_map body else Inr None) = Inr data"
  shows "fst (handleWebhook lib s r)
           \<noteq> \<lparr>reply_status = 400, reply_payload = ErrorJSON (Errorf ''invalid JSON: '' e)\<rparr>"
  using assms
  by (simp add: handleWebhook_def Server_error_def StatusBadRequest_def
      StatusInternalServerError_def Let_def split: sum.splits prod.splits option.splits)

lemma parse_array: "json_parse ''[1,2]'' = Inr (JArray [JNumber ''1'', JNumber ''2''])"
  by code_simp

lemma parse_null: "json_parse ''null'' = Inr JNull"
  by code_simp

lemma parse_object: "json_parse ''{\"value\":\"hello\"}'' = Inr (JObject [(''value'', JString ''hello'')])"
  by code_simp

lemma parse_huge: "json_parse ''{\"a\":1e400}'' = Inr (JObject [(''a'', JNumber ''1e400'')])"
  by code_simp

lemma limit_le: "float64_limit \<le> 10 ^ 400"
  by (simp add: float64_limit_def)

lemma overflows_huge: "float64_overflows ''1e400''"
  using limit_le
  by (simp add: float64_overflows_def Let_def is_digit_def in_range_def digits_val_def)

lemma Unmarshal_map_huge:
  "json_Unmarshal_map ''{\"a\":1e400}'' = Inl (UnmarshalTypeError ''number 1e400'' ''float64'')"
  by (simp add: json_Unmarshal_map_def parse_huge overflows_huge)

text \<open>
  Claim C10 (bodies that are JSON but no object), as the code has it. After a token that
  unseals, a body that is not empty and is one JSON value \<open>v\<close> is judged by
  \<^verbatim>\<open>json.Unmarshal\<close> into the map: \<^verbatim>\<open>null\<close> is accepted and leaves the map
  \<^verbatim>\<open>nil\<close>; an object is accepted when no number in it overflows a \<^verbatim>\<open>float64\<close>,
  and its members are the data; an object with a number that overflows is answered 400
  with the first such error; every other value is answered 400. A body that is answered
  400 sends nothing and leaves the server as it was; an accepted body is never answered
  with the error \<^verbatim>\<open>invalid JSON\<close>.
\<close>

theorem handleWebhook_json_body:
  assumes "Unseal (sealer s) (req_token r) = Inr (u, t)"
    and "req_body r = Inr body"
    and "body \<noteq> []"
    and "json_parse body = Inr v"
  shows "(v = JNull \<longrightarrow>
            json_Unmarshal_map body = Inr None \<and>
            fst (handleWebhook lib s r)
              \<noteq> \<lparr>reply_status = 400, reply_payload = ErrorJSON (Errorf ''invalid JSON: '' e)\<rparr>) \<and>
         (v = JObject kvs \<and> number_errors_members kvs = [] \<longrightarrow>
            json_Unmarshal_map body = Inr (Some kvs) \<and>
            fst (handleWebhook lib s r)
              \<noteq> \<lparr>reply_status = 400, reply_payload = ErrorJSON (Errorf ''invalid JSON: '' e)\<rparr>) \<and>
         (v = JObject kvs \<and> number_errors_members kvs = e1 # es \<longrightarrow>
            handleWebhook lib s r
              = (\<lparr>reply_status = 400, reply_payload = ErrorJSON (Errorf ''invalid JSON: '' e1)\<rparr>,
                 [], s)) \<and>
         (v \<noteq> JNull \<and> (\<forall>kvs. v \<noteq> JObject kvs) \<longrightarrow>
            handleWebhook lib s r
              = (\<lparr>reply_status = 400,
                  reply_payload =
                    ErrorJSON (Errorf ''invalid JSON: ''
                      (UnmarshalTypeError (kind_name v) ''map[string]interface {}''))\<rparr>,
                 [], s))"
proof (intro conjI impI; (elim conjE)?)
  assume v: "v = JNull"
  then have m: "json_Unmarshal_map body = Inr None"
    using assms(4) by (simp add: json_Unmarshal_map_def)
  then show "json_Unmarshal_map body = Inr None" .
  show "fst (handleWebhook lib s r)
      \<noteq> \<lparr>reply_status = 400, reply_payload = ErrorJSON (Errorf ''invalid JSON: '' e)\<rparr>"
    by (rule handleWebhook_json_accepted [OF assms(1,2)]) (simp add: m assms(3))
next
  assume v: "v = JObject kvs" "number_errors_members kvs = []"
  then have m: "json_Unmarshal_map body = Inr (Some kvs)"
    using assms(4) by (simp add: json_Unmarshal_map_def)
  then show "json_Unmarshal_map body = Inr (Some kvs)" .
  show "fst (handleWebhook lib s r)
      \<noteq> \<lparr>reply_status = 400, reply_payload = ErrorJSON (Errorf ''invalid JSON: '' e)\<rparr>"
    by (rule handleWebhook_json_accepted [OF assms(1,2)]) (simp add: m assms(3))
next
  assume v: "v = JObject kvs" "number_errors_members kvs = e1 # es"
  then have "json_Unmarshal_map body = Inl e1"
    using assms(4) by (simp add: json_Unmarshal_map_def)
  then show "handleWebhook lib s r
      = (\<lparr>reply_status = 400, reply_payload = ErrorJSON (Errorf ''invalid JSON: '' e1)\<rparr>, [], s)"
    using assms(1,2,3) by (simp add: handleWebhook_def Server_error_def StatusBadRequest_def)
next
  assume v: "v \<noteq> JNull" "\<forall>kvs. v \<noteq> JObject kvs"
  then have "json_Unmarshal_map body
      = Inl (UnmarshalTypeError (kind_name v) ''map[string]interface {}'')"
    using assms(4) by (cases v) (simp_all add: json_Unmarshal_map_def)
  then show "handleWebhook lib s r
      = (\<lparr>reply_status = 400,
          reply_payload =
            ErrorJSON (Errorf ''invalid JSON: ''
              (UnmarshalTypeError (kind_name v) ''map[string]interface {}''))\<rparr>,
         [], s)"
    using assms(1,2,3) by (simp add: handleWebhook_def Server_error_def StatusBadRequest_def)
qed

text \<open>The bodies \<^verbatim>\<open>null\<close>, an object of a string, an object of a number too large, an array.\<close>

theorem handleWebhook_json_body_witness:
  "json_Unmarshal_map ''null'' = Inr None \<and>
   json_Unmarshal_map ''{\"value\":\"hello\"}'' = Inr (Some [(''value'', JString ''hello'')]) \<and>
   handleWebhook test_library (test_server remote_ok)
       \<lparr>req_method = ''POST'',
        req_token = test_token ''http://remote.example.com'' ''static-payload'',
        req_body = Inr ''{\"a\":1e400}''\<rparr>
     = (\<lparr>reply_status = 400,
         reply_payload =
           ErrorJSON (Errorf ''invalid JSON: '' (UnmarshalTypeError ''number 1e400'' ''float64''))\<rparr>,
        [], test_server remote_ok) \<and>
   handleWebhook test_library (test_server remote_ok)
       \<lparr>req_method = ''POST'',
        req_token = test_token ''http://remote.example.com'' ''static-payload'',
        req_body = Inr ''[1,2]''\<rparr>
     = (\<lparr>reply_status = 400,
         reply_payload =
           ErrorJSON (Errorf ''invalid JSON: ''
             (UnmarshalTypeError ''array'' ''map[string]interface {}''))\<rparr>,
        [], test_server remote_ok)"
proof (intro conjI)
  let ?tok = "test_token ''http://remote.example.com'' ''static-payload''"
  let ?s = "test_server remote_ok"
  have U: "Unseal (sealer ?s) ?tok = Inr (''http://remote.example.com'', ''static-payload'')"
    by (simp add: sealer_test_server Unseal_static)
  show "json_Unmarshal_map ''null'' = Inr None"
    using handleWebhook_json_body [where s = ?s and lib = test_library
        and r = "\<lparr>req_method = ''POST'', req_token = ?tok, req_body = Inr ''null''\<rparr>"
        and body = "''null''" and v = JNull, THEN conjunct1] U parse_null
    by simp
  show "json_Unmarshal_map ''{\"value\":\"hello\"}'' = Inr (Some [(''value'', JString ''hello'')])"
    using handleWebhook_json_body [where s = ?s and lib = test_library
        and r = "\<lparr>req_method = ''POST'', req_token = ?tok,
                  req_body = Inr ''{\"value\":\"hello\"}''\<rparr>"
        and body = "''{\"value\":\"hello\"}''" and v = "JObject [(''value'', JString ''hello'')]"
        and kvs = "[(''value'', JString ''hello'')]", THEN conjunct2, THEN conjunct1] U parse_object
    by simp
  show "handleWebhook test_library ?s
       \<lparr>req_method = ''POST'', req_token = ?tok, req_body = Inr ''{\"a\":1e400}''\<rparr>
     = (\<lparr>reply_status = 400,
         reply_payload =
           ErrorJSON (Errorf ''invalid JSON: '' (UnmarshalTypeError ''number 1e400'' ''float64''))\<rparr>,
        [], ?s)"
    using handleWebhook_json_body [where s = ?s and lib = test_library
        and r = "\<lparr>req_method = ''POST'', req_token = ?tok, req_body = Inr ''{\"a\":1e400}''\<rparr>"
        and body = "''{\"a\":1e400}''" and v = "JObject [(''a'', JNumber ''1e400'')]"
        and kvs = "[(''a'', JNumber ''1e400'')]"
        and ?e1.0 = "UnmarshalTypeError ''number 1e400'' ''float64''" and es = "[]",
        THEN conjunct2, THEN conjunct2, THEN conjunct1] U parse_huge overflows_huge
    by simp
  show "handleWebhook test_library ?s
       \<lparr>req_method = ''POST'', req_token = ?tok, req_body = Inr ''[1,2]''\<rparr>
     = (\<lparr>reply_status = 400,
         reply_payload =
           ErrorJSON (Errorf ''invalid JSON: ''
             (UnmarshalTypeError ''array'' ''map[string]interface {}''))\<rparr>,
        [], ?s)"
    using handleWebhook_json_body [where s = ?s and lib = test_library
        and r = "\<lparr>req_method = ''POST'', req_token = ?tok, req_body = Inr ''[1,2]''\<rparr>"
        and body = "''[1,2]''" and v = "JArray [JNumber ''1'', JNumber ''2'']",
        THEN conjunct2, THEN conjunct2, THEN conjunct2] U parse_array
    by simp
qed

text \<open>
  As the claim words it, every body that is a JSON object would be accepted. The object
  with the member \<^verbatim>\<open>a\<close> of value \<^verbatim>\<open>1e400\<close> is a counterexample: the number does not
  fit a \<^verbatim>\<open>float64\<close>, and the handler answers 400.
\<close>

theorem handleWebhook_object_rejected_counterexample:
  "json_parse ''{\"a\":1e400}'' = Inr (JObject [(''a'', JNumber ''1e400'')]) \<and>
   handleWebhook test_library (test_server remote_ok)
       \<lparr>req_method = ''POST'',
        req_token = test_token ''http://remote.example.com'' ''static-payload'',
        req_body = Inr ''{\"a\":1e400}''\<rparr>
     = (\<lparr>reply_status = 400,
         reply_payload =
           ErrorJSON (Errorf ''invalid JSON: '' (UnmarshalTypeError ''number 1e400'' ''float64''))\<rparr>,
        [], test_server remote_ok)"
  by (simp add: parse_huge handleWebhook_def sealer_test_server Unseal_static Unmarshal_map_huge
      Server_error_def StatusBadRequest_def)

subsection \<open>The key of the template cache\<close>

text \<open>
  Claim C4 (the cache key tells pairs apart) fails: the key is the digest of the URL
  followed by the template with nothing between them, so two pairs with the same
  concatenation have the same key. After the server has delivered for the URL ending in
  \<^verbatim>\<open>/hook\<close> with the template \<^verbatim>\<open>static-payload\<close>, a request whose token holds the
  URL ending in \<^verbatim>\<open>/hooks\<close> and the template \<^verbatim>\<open>tatic-payload\<close> finds the first
  template in the cache, and the body sent to the second URL is \<^verbatim>\<open>static-payload\<close>.
\<close>

theorem template_key_collision:
  "(''http://remote.example.com/hook'', ''static-payload'')
     \<noteq> (''http://remote.example.com/hooks'', ''tatic-payload'') \<and>
   template_key ''http://remote.example.com/hook'' ''static-payload''
     = template_key ''http://remote.example.com/hooks'' ''tatic-payload'' \<and>
   (case handleWebhook test_library (test_server remote_ok)
           \<lparr>req_method = ''POST'',
            req_token = test_token ''http://remote.example.com/hook'' ''static-payload'',
            req_body = Inr []\<rparr> of
      (reply1, sent1, s1) \<Rightarrow>
        sent1 = [\<lparr>out_method = ''POST'', out_url = ''http://remote.example.com/hook'',
                  out_body = ''static-payload''\<rparr>] \<and>
        fst (snd (handleWebhook test_library s1
           \<lparr>req_method = ''POST'',
            req_token = test_token ''http://remote.example.com/hooks'' ''tatic-payload'',
            req_body = Inr []\<rparr>))
          = [\<lparr>out_method = ''POST'', out_url = ''http://remote.example.com/hooks'',
              out_body = ''static-payload''\<rparr>])"
proof -
  have U1: "Unseal \<lparr>Secret = ''test-secret''\<rparr>
      (test_token ''http://remote.example.com/hook'' ''static-payload'')
      = Inr (''http://remote.example.com/hook'', ''static-payload'')"
    by (rule Unseal_test_token) code_simp
  have U2: "Unseal \<lparr>Secret = ''test-secret''\<rparr>
      (test_token ''http://remote.example.com/hooks'' ''tatic-payload'')
      = Inr (''http://remote.example.com/hooks'', ''tatic-payload'')"
    by (rule Unseal_test_token) code_simp
  have K: "template_key ''http://remote.example.com/hook'' ''static-payload''
     = template_key ''http://remote.example.com/hooks'' ''tatic-payload''"
    by (simp add: template_key_def)
  show ?thesis
    by (simp add: K handleWebhook_def test_server_def U1 U2 Server_template_def template_Parse_def
        test_library_def remote_ok_def Let_def)
qed

end
